theory Spec2Isabelle
  imports Complex_Main "HOL-Library.AList"
begin

section \<open>JavaScript values and strings\<close>

text \<open>
  The extraction sanitizer (\<^verbatim>\<open>src/buddy-core/frontend/session.js\<close>, second document,
  lines 77-615) works on the value that \<^verbatim>\<open>JSON.parse\<close> returns. A value is one of
  JavaScript's primitives, an array or a plain object. \<open>JUndefined\<close> is what reading
  a missing property gives; \<^verbatim>\<open>JSON.parse\<close> itself never returns it.

  A finite number is modelled by its exact rational value (no rounding to a double,
  and no infinity for a literal beyond the range of a double); an object by the list of its own properties in the order \<^verbatim>\<open>Object.entries\<close>
  reports them, so a well-formed object has pairwise different keys.

  A string is a list of characters; a \<open>char\<close> stands for one UTF-16 code unit
  below 256 (Latin-1), which is where all the characters the code tests for live.
\<close>

datatype jsval =
    JUndefined
  | JNull
  | JBool bool
  | JNum rat
  | JStr string
  | JArr "jsval list"
  | JObj "(string \<times> jsval) list"

datatype error = TypeError | SyntaxError

text \<open>\<^verbatim>\<open>!value\<close> is true exactly for the falsy values.\<close>

fun truthy :: "jsval \<Rightarrow> bool" where
  "truthy JUndefined = False"
| "truthy JNull = False"
| "truthy (JBool b) = b"
| "truthy (JNum r) = (r \<noteq> 0)"
| "truthy (JStr s) = (s \<noteq> [])"
| "truthy (JArr xs) = True"
| "truthy (JObj kvs) = True"

text \<open>\<^verbatim>\<open>typeof value === 'object'\<close>: null, arrays and objects.\<close>

fun typeofObject :: "jsval \<Rightarrow> bool" where
  "typeofObject JNull = True"
| "typeofObject (JArr xs) = True"
| "typeofObject (JObj kvs) = True"
| "typeofObject v = False"

text \<open>
  Reading a property \<^verbatim>\<open>value.name\<close> of a value that is neither null nor undefined.
  None of the names the sanitizer reads is inherited from a prototype, so anything
  but an own property of an object reads as undefined.
\<close>

fun getProp :: "jsval \<Rightarrow> string \<Rightarrow> jsval" where
  "getProp (JObj kvs) name = (case map_of kvs name of Some v \<Rightarrow> v | None \<Rightarrow> JUndefined)"
| "getProp v name = JUndefined"

text \<open>
  Template literals convert an interpolated value with ToString. For an object that
  is OrdinaryToPrimitive: an own property \<^verbatim>\<open>toString\<close> (never callable in parsed
  JSON) shadows \<^verbatim>\<open>Object.prototype.toString\<close>, and \<^verbatim>\<open>valueOf\<close> returns no
  primitive, so the conversion throws a TypeError. An array is joined, converting
  every element that is not null.
\<close>

fun toStringThrows :: "jsval \<Rightarrow> bool" where
  "toStringThrows (JObj kvs) = (''toString'' \<in> fst ` set kvs)"
| "toStringThrows (JArr xs) = (\<exists>x \<in> set xs. toStringThrows x)"
| "toStringThrows v = False"

subsection \<open>Characters and strings\<close>

text \<open>White space as \<^verbatim>\<open>String.prototype.trim\<close> and the regex class \<^verbatim>\<open>\s\<close> see it.\<close>

definition isWhiteSpace :: "char \<Rightarrow> bool" where
  "isWhiteSpace c \<longleftrightarrow> of_char c \<in> {9, 10, 11, 12, 13, 32, 160 :: nat}"

definition isDigit :: "char \<Rightarrow> bool" where
  "isDigit c \<longleftrightarrow> 48 \<le> (of_char c :: nat) \<and> (of_char c :: nat) \<le> 57"

text \<open>The regex class \<^verbatim>\<open>\w\<close>, which decides the word boundary \<^verbatim>\<open>\b\<close>.\<close>

definition isWordChar :: "char \<Rightarrow> bool" where
  "isWordChar c \<longleftrightarrow>
     (let n = (of_char c :: nat)
      in (48 \<le> n \<and> n \<le> 57) \<or> (65 \<le> n \<and> n \<le> 90) \<or> (97 \<le> n \<and> n \<le> 122) \<or> n = 95)"

definition trim :: "string \<Rightarrow> string" where
  "trim s = rev (dropWhile isWhiteSpace (rev (dropWhile isWhiteSpace s)))"

definition lowerChar :: "char \<Rightarrow> char" where
  "lowerChar c =
     (let n = (of_char c :: nat)
      in if (65 \<le> n \<and> n \<le> 90) \<or> (192 \<le> n \<and> n \<le> 222 \<and> n \<noteq> 215)
         then char_of (n + 32) else c)"

definition toLowerCase :: "string \<Rightarrow> string" where
  "toLowerCase s = map lowerChar s"

definition digitVal :: "char \<Rightarrow> nat" where
  "digitVal c = of_char c - 48"

text \<open>\<^verbatim>\<open>Number(s)\<close> and \<^verbatim>\<open>parseInt(s, 10)\<close> on a string of decimal digits.\<close>

definition parseDigits :: "string \<Rightarrow> nat" where
  "parseDigits s = foldl (\<lambda>n c. 10 * n + digitVal c) 0 s"

text \<open>\<^verbatim>\<open>n.toString()\<close> for a non-negative integer.\<close>

fun showNat :: "nat \<Rightarrow> string" where
  "showNat n =
     (if n < 10 then [char_of (48 + n)]
      else showNat (n div 10) @ [char_of (48 + n mod 10)])"

declare showNat.simps [simp del]

definition padStart :: "nat \<Rightarrow> char \<Rightarrow> string \<Rightarrow> string" where
  "padStart n c s = replicate (n - length s) c @ s"

section \<open>Primitive normalizers\<close>

text \<open>\<^verbatim>\<open>toTrimmedString\<close>, lines 110-116.\<close>

definition toTrimmedString :: "jsval \<Rightarrow> string option" where
  "toTrimmedString v =
     (case v of
        JStr s \<Rightarrow> (let trimmed = trim s in if trimmed = [] then None else Some trimmed)
      | _ \<Rightarrow> None)"

subsection \<open>Dates\<close>

text \<open>\<^verbatim>\<open>DATE_REGEX = /^\d{4}-\d{2}-\d{2}$/\<close>.\<close>

definition matchesDateRegex :: "string \<Rightarrow> bool" where
  "matchesDateRegex s \<longleftrightarrow>
     length s = 10 \<and> (\<forall>i \<in> {0, 1, 2, 3, 5, 6, 8, 9}. isDigit (s ! i))
     \<and> s ! 4 = CHR ''-'' \<and> s ! 7 = CHR ''-''"

definition isLeapYear :: "nat \<Rightarrow> bool" where
  "isLeapYear y \<longleftrightarrow> y mod 4 = 0 \<and> (y mod 100 \<noteq> 0 \<or> y mod 400 = 0)"

definition daysInMonth :: "nat \<Rightarrow> nat \<Rightarrow> nat" where
  "daysInMonth y m =
     (if m = 2 then (if isLeapYear y then 29 else 28)
      else if m \<in> {4, 6, 9, 11} then 30 else 31)"

text \<open>
  \<^verbatim>\<open>new Date("YYYY-MM-DD")\<close> followed by \<^verbatim>\<open>getUTCFullYear\<close>,
  \<^verbatim>\<open>getUTCMonth() + 1\<close> and \<^verbatim>\<open>getUTCDate\<close>: a date-only ISO string is read as
  UTC midnight. \<open>None\<close> is the invalid date, whose time value is NaN: a month outside
  1-12 or a day outside 1-31. Node's engine accepts a day up to 31 in every month and
  rolls a day past the month's end over into the next month (an engine that returns
  the invalid date there instead makes \<open>normalizeDate\<close> answer the same, by the
  comparison that follows).
\<close>

definition newDateUTC :: "nat \<Rightarrow> nat \<Rightarrow> nat \<Rightarrow> (nat \<times> nat \<times> nat) option" where
  "newDateUTC y m d =
     (if m < 1 \<or> 12 < m \<or> d < 1 \<or> 31 < d then None
      else if d \<le> daysInMonth y m then Some (y, m, d)
      else Some (y, m + 1, d - daysInMonth y m))"

text \<open>
  \<^verbatim>\<open>normalizeDate\<close>, lines 118-131. On a string that matches the pattern,
  \<^verbatim>\<open>split('-')\<close> gives the three digit groups.
\<close>

definition normalizeDate :: "jsval \<Rightarrow> string option" where
  "normalizeDate v =
     (if \<not> truthy v then None
      else case v of
        JStr s \<Rightarrow>
          (let trimmed = trim s in
           if trimmed = [] then None
           else if \<not> matchesDateRegex trimmed then None
           else
             (let year = take 4 trimmed; month = take 2 (drop 5 trimmed);
                  day = drop 8 trimmed
              in case newDateUTC (parseDigits year) (parseDigits month) (parseDigits day) of
                   None \<Rightarrow> None
                 | Some (y, m, d) \<Rightarrow>
                     if y \<noteq> parseDigits year \<or> m \<noteq> parseDigits month \<or> d \<noteq> parseDigits day
                     then None
                     else Some (padStart 4 CHR ''0'' year @ ''-'' @ padStart 2 CHR ''0'' month
                                @ ''-'' @ padStart 2 CHR ''0'' day)))
      | _ \<Rightarrow> None)"

subsection \<open>Numbers\<close>

text \<open>\<^verbatim>\<open>Math.round\<close>: the nearest integer, a tie going up.\<close>

definition mathRound :: "rat \<Rightarrow> int" where
  "mathRound r = \<lfloor>r + 1 / 2\<rfloor>"

text \<open>
  \<^verbatim>\<open>Number.parseFloat\<close> on a string of digits, dots and minus signs (what
  \<^verbatim>\<open>replace(/[^0-9.-]/g, '')\<close> leaves): the longest prefix that is a decimal
  literal, that is an optional sign, digits, and a fraction after a dot. \<open>None\<close> is
  NaN, the result when no digit is found there.
\<close>

definition parseFloat :: "string \<Rightarrow> rat option" where
  "parseFloat s =
     (let neg = (s \<noteq> [] \<and> hd s = CHR ''-'');
          body = (if neg then tl s else s);
          ip = takeWhile isDigit body;
          after = dropWhile isDigit body;
          fp = (if after \<noteq> [] \<and> hd after = CHR ''.'' then takeWhile isDigit (tl after) else [])
      in if ip = [] \<and> fp = [] then None
         else Some ((if neg then - 1 else 1)
                    * (of_nat (parseDigits ip) + of_nat (parseDigits fp) / 10 ^ length fp)))"

text \<open>\<^verbatim>\<open>normalizeCurrency\<close>, lines 133-145.\<close>

definition normalizeCurrency :: "jsval \<Rightarrow> int option" where
  "normalizeCurrency v =
     (case v of
        JNull \<Rightarrow> None
      | JUndefined \<Rightarrow> None
      | JNum r \<Rightarrow> (if r \<ge> 0 then Some (mathRound r) else None)
      | JStr s \<Rightarrow>
          (if s = [] then None
           else
             (let cleaned = filter (\<lambda>c. isDigit c \<or> c = CHR ''.'' \<or> c = CHR ''-'') s
              in if cleaned = [] then None
                 else case parseFloat cleaned of
                        None \<Rightarrow> None
                      | Some parsed \<Rightarrow> if parsed < 0 then None else Some (mathRound parsed)))
      | _ \<Rightarrow> None)"

text \<open>\<^verbatim>\<open>normalizeInteger\<close>, lines 147-157.\<close>

definition normalizeInteger :: "jsval \<Rightarrow> int option" where
  "normalizeInteger v =
     (case v of
        JNull \<Rightarrow> None
      | JUndefined \<Rightarrow> None
      | JNum r \<Rightarrow> (if of_int \<lfloor>r\<rfloor> = r \<and> r \<ge> 0 then Some \<lfloor>r\<rfloor> else None)
      | JStr s \<Rightarrow>
          (if s = [] then None
           else
             (let cleaned = filter isDigit s
              in if cleaned = [] then None else Some (int (parseDigits cleaned))))
      | _ \<Rightarrow> None)"

text \<open>\<^verbatim>\<open>normalizeBoolean\<close>, lines 159-168.\<close>

definition normalizeBoolean :: "jsval \<Rightarrow> bool option" where
  "normalizeBoolean v =
     (case v of
        JBool b \<Rightarrow> Some b
      | JStr s \<Rightarrow>
          (let lowered = toLowerCase (trim s)
           in if lowered = [] then None
              else if lowered \<in> set [''true'', ''yes'', ''y'', ''paid'', ''completed''] then Some True
              else if lowered \<in> set [''false'', ''no'', ''n'', ''unpaid'', ''not paid''] then Some False
              else None)
      | _ \<Rightarrow> None)"

section \<open>Canonicalization tables\<close>

text \<open>The constants of \<^verbatim>\<open>src/buddies/bride/domain.js\<close>.\<close>

definition VENDOR_TYPES :: "string list" where
  "VENDOR_TYPES =
     [''photographer'', ''caterer'', ''florist'', ''dj'', ''videographer'', ''baker'',
      ''planner'', ''venue'', ''decorator'', ''hair_makeup'', ''transportation'',
      ''rentals'', ''other'']"

definition VENDOR_TYPE_ALIASES :: "(string \<times> string) list" where
  "VENDOR_TYPE_ALIASES =
     [(''photography'', ''photographer''), (''photo'', ''photographer''),
      (''photos'', ''photographer''), (''dj/band'', ''dj''), (''band'', ''dj''),
      (''music'', ''dj''), (''bakery'', ''baker''), (''cake'', ''baker''),
      (''cakes'', ''baker''), (''makeup'', ''hair_makeup''),
      (''hair & makeup'', ''hair_makeup''), (''hair and makeup'', ''hair_makeup''),
      (''transport'', ''transportation''), (''planner/coordinator'', ''planner''),
      (''coordinator'', ''planner''), (''decor'', ''decorator''),
      (''lighting'', ''decorator'')]"

definition VENDOR_STATUSES :: "string list" where
  "VENDOR_STATUSES =
     [''inquiry'', ''pending'', ''booked'', ''contract_signed'', ''deposit_paid'',
      ''fully_paid'', ''rejected'', ''cancelled'']"

definition BUDGET_CATEGORIES :: "(string \<times> string) list" where
  "BUDGET_CATEGORIES =
     [(''venue'', ''venue''), (''ceremony'', ''venue''), (''reception'', ''venue''),
      (''catering'', ''catering''), (''food'', ''catering''), (''flowers'', ''flowers''),
      (''floral'', ''flowers''), (''photography'', ''photography''),
      (''photo'', ''photography''), (''videography'', ''videography''),
      (''music'', ''music''), (''dj'', ''music''), (''band'', ''music''),
      (''cake'', ''cake''), (''dessert'', ''cake''), (''decor'', ''decorations''),
      (''decorations'', ''decorations''), (''attire'', ''attire''), (''dress'', ''attire''),
      (''suit'', ''attire''), (''invitations'', ''invitations''),
      (''stationery'', ''invitations''), (''favors'', ''favors''),
      (''transport'', ''transportation''), (''transportation'', ''transportation''),
      (''honeymoon'', ''honeymoon''), (''other'', ''other'')]"

definition TASK_CATEGORIES :: "(string \<times> string) list" where
  "TASK_CATEGORIES =
     [(''venue'', ''venue''), (''catering'', ''catering''), (''flowers'', ''flowers''),
      (''floral'', ''flowers''), (''photography'', ''photography''),
      (''photo'', ''photography''), (''attire'', ''attire''), (''dress'', ''attire''),
      (''invitations'', ''invitations''), (''decor'', ''decorations''),
      (''decorations'', ''decorations''), (''transport'', ''transportation''),
      (''transportation'', ''transportation''), (''legal'', ''legal''),
      (''honeymoon'', ''honeymoon''), (''day_of'', ''day_of''), (''day-of'', ''day_of''),
      (''other'', ''other'')]"

definition TASK_STATUSES :: "string list" where
  "TASK_STATUSES = [''not_started'', ''in_progress'', ''completed'', ''cancelled'']"

definition TASK_PRIORITIES :: "string list" where
  "TASK_PRIORITIES = [''low'', ''medium'', ''high'', ''urgent'']"

text \<open>
  \<^verbatim>\<open>canonicalizeVendorType\<close>, lines 170-176. The argument is not checked to be a
  string: on a truthy value of another type \<^verbatim>\<open>value.trim\<close> is not a function and
  the call throws a TypeError. The same holds for the two functions after it.
\<close>

definition canonicalizeVendorType :: "jsval \<Rightarrow> error + string option" where
  "canonicalizeVendorType v =
     (if \<not> truthy v then Inr None
      else case v of
        JStr s \<Rightarrow>
          (let normalized = toLowerCase (trim s)
           in if normalized = [] then Inr None
              else if normalized \<in> set VENDOR_TYPES then Inr (Some normalized)
              else Inr (map_of VENDOR_TYPE_ALIASES normalized))
      | _ \<Rightarrow> Inl TypeError)"

text \<open>\<^verbatim>\<open>canonicalizeBudgetCategory\<close>, lines 178-183.\<close>

definition canonicalizeBudgetCategory :: "jsval \<Rightarrow> error + string option" where
  "canonicalizeBudgetCategory v =
     (if \<not> truthy v then Inr None
      else case v of
        JStr s \<Rightarrow>
          (let normalized = toLowerCase (trim s)
           in if normalized = [] then Inr None
              else Inr (map_of BUDGET_CATEGORIES normalized))
      | _ \<Rightarrow> Inl TypeError)"

text \<open>\<^verbatim>\<open>canonicalizeTaskCategory\<close>, lines 185-190.\<close>

definition canonicalizeTaskCategory :: "jsval \<Rightarrow> error + string option" where
  "canonicalizeTaskCategory v =
     (if \<not> truthy v then Inr None
      else case v of
        JStr s \<Rightarrow>
          (let normalized = toLowerCase (trim s)
           in if normalized = [] then Inr None
              else Inr (map_of TASK_CATEGORIES normalized))
      | _ \<Rightarrow> Inl TypeError)"

text \<open>
  \<^verbatim>\<open>value ? value.trim().toLowerCase() : null\<close>, the expression that reads the
  status of a vendor (line 393) and the status and priority of a task (lines 532,
  538); \<open>None\<close> is null. A truthy value that is not a string throws.
\<close>

definition trimLowerOrNull :: "jsval \<Rightarrow> error + string option" where
  "trimLowerOrNull v =
     (if \<not> truthy v then Inr None
      else case v of
        JStr s \<Rightarrow> Inr (Some (toLowerCase (trim s)))
      | _ \<Rightarrow> Inl TypeError)"

text \<open>
  \<^verbatim>\<open>status && SET.has(status) ? status : null\<close>: the empty string is falsy.
\<close>

definition canonicalIn :: "string list \<Rightarrow> string option \<Rightarrow> string option" where
  "canonicalIn allowed status =
     (case status of
        None \<Rightarrow> None
      | Some s \<Rightarrow> if s \<noteq> [] \<and> s \<in> set allowed then Some s else None)"

subsection \<open>Contact fields\<close>

text \<open>
  \<^verbatim>\<open>EMAIL_REGEX = /^[^\s@]+@[^\s@]+\.[^\s@]+$/\<close>: no white space, exactly one
  \<^verbatim>\<open>@\<close> with text before it, and after it a dot that is neither the first nor
  the last character.
\<close>

definition matchesEmailRegex :: "string \<Rightarrow> bool" where
  "matchesEmailRegex s \<longleftrightarrow>
     (let noSpaceAt = (\<lambda>c. \<not> isWhiteSpace c \<and> c \<noteq> CHR ''@'');
          local = takeWhile noSpaceAt s;
          rest = dropWhile noSpaceAt s
      in local \<noteq> [] \<and> rest \<noteq> [] \<and> hd rest = CHR ''@''
         \<and> list_all noSpaceAt (tl rest)
         \<and> CHR ''.'' \<in> set (butlast (tl (tl rest))))"

text \<open>\<^verbatim>\<open>PHONE_REGEX = /^\+?[0-9()[\]\s-]{7,}$/\<close>.\<close>

definition matchesPhoneRegex :: "string \<Rightarrow> bool" where
  "matchesPhoneRegex s \<longleftrightarrow>
     (let body = (if s \<noteq> [] \<and> hd s = CHR ''+'' then tl s else s)
      in 7 \<le> length body
         \<and> list_all (\<lambda>c. isDigit c \<or> c \<in> set ''()[]-'' \<or> isWhiteSpace c) body)"

text \<open>\<^verbatim>\<open>validateEmail\<close> and \<^verbatim>\<open>validatePhone\<close>, lines 192-202.\<close>

definition validateEmail :: "jsval \<Rightarrow> string option" where
  "validateEmail v =
     (case toTrimmedString v of
        None \<Rightarrow> None
      | Some str \<Rightarrow> if matchesEmailRegex str then Some str else None)"

definition validatePhone :: "jsval \<Rightarrow> string option" where
  "validatePhone v =
     (case toTrimmedString v of
        None \<Rightarrow> None
      | Some str \<Rightarrow> if matchesPhoneRegex str then Some str else None)"

subsection \<open>Time of day\<close>

text \<open>
  The four patterns of \<^verbatim>\<open>formatWeddingTimeForSupabase\<close>, each written out as the
  function that finds what the regular expression finds.

  \<open>isHour24\<close> is the group \<^verbatim>\<open>([01]?\d|2[0-3])\<close> matching a whole string and
  \<open>isMinute\<close> is \<^verbatim>\<open>[0-5]\d\<close>.
\<close>

definition isHour24 :: "string \<Rightarrow> bool" where
  "isHour24 h \<longleftrightarrow>
     (length h = 1 \<and> isDigit (h ! 0))
     \<or> (length h = 2 \<and> isDigit (h ! 1) \<and> h ! 0 \<in> set ''01'')
     \<or> (length h = 2 \<and> h ! 0 = CHR ''2'' \<and> h ! 1 \<in> set ''0123'')"

definition isMinute :: "string \<Rightarrow> bool" where
  "isMinute m \<longleftrightarrow> length m = 2 \<and> m ! 0 \<in> set ''012345'' \<and> isDigit (m ! 1)"

text \<open>
  \<^verbatim>\<open>/^([01]?\d|2[0-3]):([0-5]\d)(?::([0-5]\d))?$/\<close> against the whole string; the
  result is groups 1 and 2.
\<close>

definition directMatch :: "string \<Rightarrow> (string \<times> string) option" where
  "directMatch s =
     (let hours = takeWhile (\<lambda>c. c \<noteq> CHR '':'') s;
          rest = dropWhile (\<lambda>c. c \<noteq> CHR '':'') s
      in if isHour24 hours \<and> (length rest = 3 \<or> length rest = 6)
            \<and> isMinute (take 2 (tl rest))
            \<and> (length rest = 6 \<longrightarrow> rest ! 3 = CHR '':'' \<and> isMinute (drop 4 rest))
         then Some (hours, take 2 (tl rest)) else None)"

text \<open>
  \<^verbatim>\<open>/(\d{1,2})(?::(\d{2}))?\s*(am|pm)/\<close> tried at the start of a string. Each
  quantifier is greedy, and giving back what it took never helps: after one digit a
  second digit, after the hour a colon, after white space more white space can start
  none of what follows. The result is groups 1, 2 (when it took part) and 3.
\<close>

definition ampmAt :: "string \<Rightarrow> (string \<times> string option \<times> string) option" where
  "ampmAt s =
     (let hours = takeWhile isDigit (take 2 s)
      in if hours = [] then None
         else
           (let r1 = drop (length hours) s;
                hasMinutes = (3 \<le> length r1 \<and> r1 ! 0 = CHR '':''
                              \<and> isDigit (r1 ! 1) \<and> isDigit (r1 ! 2));
                minutes = (if hasMinutes then Some (take 2 (tl r1)) else None);
                r2 = dropWhile isWhiteSpace (if hasMinutes then drop 3 r1 else r1);
                modifier = take 2 r2
            in if modifier = ''am'' \<or> modifier = ''pm'' then Some (hours, minutes, modifier)
               else None))"

text \<open>The pattern is not anchored: the leftmost position where it matches wins.\<close>

fun ampmMatch :: "string \<Rightarrow> (string \<times> string option \<times> string) option" where
  "ampmMatch [] = None"
| "ampmMatch (c # cs) =
     (case ampmAt (c # cs) of Some m \<Rightarrow> Some m | None \<Rightarrow> ampmMatch cs)"

text \<open>
  \<^verbatim>\<open>/\b([01]?\d|2[0-3])(:([0-5]\d))\b/\<close> from a position on: the hour is the one or
  two characters before the colon, and the closing \<^verbatim>\<open>\b\<close> wants the end of the
  string or a character outside \<^verbatim>\<open>\w\<close> after the minutes. The result is groups
  1 and 3.
\<close>

definition hour24At :: "string \<Rightarrow> (string \<times> string) option" where
  "hour24At s =
     (let hours = (if 2 \<le> length s \<and> s ! 1 = CHR '':'' then take 1 s else take 2 s);
          rest = drop (length hours) s
      in if isHour24 hours \<and> 3 \<le> length rest \<and> rest ! 0 = CHR '':''
            \<and> isMinute (take 2 (tl rest))
            \<and> (length rest = 3 \<or> \<not> isWordChar (rest ! 3))
         then Some (hours, take 2 (tl rest)) else None)"

text \<open>
  The opening \<^verbatim>\<open>\b\<close> before a digit wants the start of the string or a character
  outside \<^verbatim>\<open>\w\<close> before it; \<open>prevWord\<close> says that the character before the
  position is in \<^verbatim>\<open>\w\<close>.
\<close>

fun embedded24HourMatch :: "bool \<Rightarrow> string \<Rightarrow> (string \<times> string) option" where
  "embedded24HourMatch prevWord [] = None"
| "embedded24HourMatch prevWord (c # cs) =
     (case (if prevWord then None else hour24At (c # cs)) of
        Some m \<Rightarrow> Some m
      | None \<Rightarrow> embedded24HourMatch (isWordChar c) cs)"

text \<open>
  \<^verbatim>\<open>/\b([1-9]|1[0-2])\b/\<close> from a position on: the first alternative is tried
  first, the second when the first has no word boundary after it.
\<close>

definition hour12At :: "string \<Rightarrow> string option" where
  "hour12At s =
     (if 1 \<le> length s \<and> s ! 0 \<in> set ''123456789''
         \<and> (length s = 1 \<or> \<not> isWordChar (s ! 1))
      then Some (take 1 s)
      else if 2 \<le> length s \<and> s ! 0 = CHR ''1'' \<and> s ! 1 \<in> set ''012''
              \<and> (length s = 2 \<or> \<not> isWordChar (s ! 2))
      then Some (take 2 s)
      else None)"

fun embeddedHourMatch :: "bool \<Rightarrow> string \<Rightarrow> string option" where
  "embeddedHourMatch prevWord [] = None"
| "embeddedHourMatch prevWord (c # cs) =
     (case (if prevWord then None else hour12At (c # cs)) of
        Some m \<Rightarrow> Some m
      | None \<Rightarrow> embeddedHourMatch (isWordChar c) cs)"

text \<open>\<^verbatim>\<open>formatWeddingTimeForSupabase\<close>, lines 204-262.\<close>

definition formatWeddingTimeForSupabase :: "jsval \<Rightarrow> string option" where
  "formatWeddingTimeForSupabase rawTime =
     (if \<not> truthy rawTime then None
      else case rawTime of
        JStr s \<Rightarrow>
          (let trimmed = trim s in
           if trimmed = [] then None
           else
             (let lower = toLowerCase trimmed in
              if lower = ''noon'' then Some ''12:00''
              else if lower = ''midnight'' then Some ''00:00''
              else case directMatch lower of
                Some (hours, minutes) \<Rightarrow> Some (padStart 2 CHR ''0'' hours @ '':'' @ minutes)
              | None \<Rightarrow>
                 (case ampmMatch lower of
                    Some (h, m, modifier) \<Rightarrow>
                      (let parsed = parseDigits h;
                           minutes = (case m of Some ms \<Rightarrow> parseDigits ms | None \<Rightarrow> 0);
                           hours = (if parsed = 12 then (if modifier = ''am'' then 0 else 12)
                                    else if modifier = ''pm'' then parsed + 12
                                    else parsed)
                       in Some (padStart 2 CHR ''0'' (showNat hours) @ '':''
                                @ padStart 2 CHR ''0'' (showNat minutes)))
                  | None \<Rightarrow>
                     (case embedded24HourMatch False lower of
                        Some (hours, minutes) \<Rightarrow>
                          Some (padStart 2 CHR ''0'' hours @ '':'' @ minutes)
                      | None \<Rightarrow>
                         (case embeddedHourMatch False lower of
                            Some h \<Rightarrow>
                              (let hourVal = parseDigits h
                               in if hourVal \<le> 23
                                  then Some (padStart 2 CHR ''0'' (showNat hourVal) @ '':00'')
                                  else None)
                          | None \<Rightarrow> None)))))
      | _ \<Rightarrow> None)"

section \<open>Warnings and loops\<close>

text \<open>
  A warning is a template literal of the source; the model keeps which template it is
  and the values interpolated into it, in the template's order:
  \<^item> \<open>IgnoredField key v\<close>: \<^verbatim>\<open>Ignored <key>: expected ..., received "<v>".\<close>
    (for the time, \<^verbatim>\<open>unrecognized time "<v>"\<close>), lines 283-319;
  \<^item> \<open>VendorNotObject i\<close>: \<^verbatim>\<open>Skipped vendor at index <i>: expected object.\<close>
  \<^item> \<open>VendorMissingName i\<close>: \<^verbatim>\<open>Skipped vendor at index <i>: missing vendor_name.\<close>
  \<^item> \<open>VendorUnsupportedType name raw\<close>:
    \<^verbatim>\<open>Skipped vendor "<name>": unsupported vendor_type "<raw>".\<close>
  \<^item> \<open>VendorDuplicate name type\<close>: \<^verbatim>\<open>Skipped vendor "<name>" (<type>): duplicate entry.\<close>
  \<^item> \<open>VendorDepositAdjusted name\<close>:
    \<^verbatim>\<open>Adjusted deposit for vendor "<name>" to not exceed total_cost.\<close>
  \<^item> \<open>VendorStatusDropped raw name\<close>:
    \<^verbatim>\<open>Dropped unsupported status "<raw>" for vendor "<name>".\<close>
  \<^item> \<open>BudgetNotObject i\<close>: \<^verbatim>\<open>Skipped budget item at index <i>: expected object.\<close>
  \<^item> \<open>BudgetUnsupportedCategory i raw\<close>:
    \<^verbatim>\<open>Skipped budget item at index <i>: unsupported category "<raw>".\<close>
  \<^item> \<open>BudgetNoAmounts category\<close>:
    \<^verbatim>\<open>Skipped budget item for category "<category>": no monetary values provided.\<close>
  \<^item> \<open>BudgetMerged category\<close>: \<^verbatim>\<open>Merged duplicate budget category "<category>".\<close>
  \<^item> \<open>TaskNotObject i\<close>: \<^verbatim>\<open>Skipped task at index <i>: expected object.\<close>
  \<^item> \<open>TaskMissingName i\<close>: \<^verbatim>\<open>Skipped task at index <i>: missing task_name.\<close>
  \<^item> \<open>TaskDueDateRemoved name\<close>: \<^verbatim>\<open>Removed invalid due_date for task "<name>".\<close>
  \<^item> \<open>TaskCategoryDropped raw name\<close>:
    \<^verbatim>\<open>Dropped unsupported task category "<raw>" for "<name>".\<close>
  \<^item> \<open>TaskStatusDropped raw name\<close>, \<open>TaskPriorityDropped raw name\<close>: the same for the
    status and the priority;
  \<^item> \<open>TaskDuplicate name due\<close>:
    \<^verbatim>\<open>Skipped duplicate task "<name>" with due date <due or 'unspecified'>.\<close>
  \<^item> \<open>PayloadTooLarge\<close>: \<^verbatim>\<open>I received a very large set of details, ...\<close>
  \<^item> \<open>PayloadUnreadable\<close>: \<^verbatim>\<open>I could not read the structured details this time, ...\<close>
\<close>

datatype warning =
    IgnoredField string jsval
  | VendorNotObject nat
  | VendorMissingName nat
  | VendorUnsupportedType string jsval
  | VendorDuplicate string string
  | VendorDepositAdjusted string
  | VendorStatusDropped jsval string
  | BudgetNotObject nat
  | BudgetUnsupportedCategory nat jsval
  | BudgetNoAmounts string
  | BudgetMerged string
  | TaskNotObject nat
  | TaskMissingName nat
  | TaskDueDateRemoved string
  | TaskCategoryDropped jsval string
  | TaskStatusDropped jsval string
  | TaskPriorityDropped jsval string
  | TaskDuplicate string "string option"
  | PayloadTooLarge
  | PayloadUnreadable

text \<open>
  A loop whose body may throw: \<^verbatim>\<open>for ... of\<close> and \<^verbatim>\<open>forEach\<close> over the
  elements, the state threaded through, the first exception ending the loop.
\<close>

fun foldE :: "('s \<Rightarrow> 'a \<Rightarrow> error + 's) \<Rightarrow> 'a list \<Rightarrow> 's \<Rightarrow> error + 's" where
  "foldE f [] s = Inr s"
| "foldE f (x # xs) s = (case f s x of Inl e \<Rightarrow> Inl e | Inr s' \<Rightarrow> foldE f xs s')"

text \<open>The index that \<^verbatim>\<open>forEach\<close> passes with each element.\<close>

definition indexed :: "'a list \<Rightarrow> (nat \<times> 'a) list" where
  "indexed xs = zip [0..<length xs] xs"

text \<open>
  \<^verbatim>\<open>Object.entries\<close> of an object or an array; an array's keys are its indices.
\<close>

fun objectEntries :: "jsval \<Rightarrow> (string \<times> jsval) list" where
  "objectEntries (JObj kvs) = kvs"
| "objectEntries (JArr xs) = zip (map showNat [0..<length xs]) xs"
| "objectEntries v = []"

section \<open>Profile sanitizer\<close>

definition TEXT_KEYS :: "string list" where
  "TEXT_KEYS =
     [''partner1_name'', ''partner2_name'', ''ceremony_location'', ''reception_location'',
      ''venue_name'', ''color_scheme_primary'', ''color_scheme_secondary'',
      ''wedding_style'', ''wedding_name'']"

text \<open>
  What a sanitized profile holds under a key: a string (dates, times, names) or a
  non-negative whole number (the guest count and the two amounts).
\<close>

datatype fieldValue = TextField string | NumberField int

type_synonym profile = "(string \<times> fieldValue) list"

text \<open>
  \<^verbatim>\<open>warnings.push(`Ignored ...: ..., received "${value}".`)\<close>: the template converts
  the raw value to a string first, which can throw.
\<close>

definition ignoreField ::
  "string \<Rightarrow> jsval \<Rightarrow> profile \<times> warning list \<Rightarrow> error + profile \<times> warning list" where
  "ignoreField key v st =
     (if toStringThrows v then Inl TypeError
      else Inr (fst st, snd st @ [IgnoredField key v]))"

text \<open>The body of the loop of \<^verbatim>\<open>sanitizeWeddingInfo\<close>, lines 273-342.\<close>

definition weddingInfoEntry ::
  "profile \<times> warning list \<Rightarrow> string \<times> jsval \<Rightarrow> error + profile \<times> warning list" where
  "weddingInfoEntry st kv =
     (let key = fst kv; v = snd kv; sanitized = fst st; warnings = snd st in
      if v = JNull \<or> v = JUndefined \<or> v = JStr [] then Inr st
      else if key = ''wedding_date'' then
        (case normalizeDate v of
           Some normalized \<Rightarrow> Inr (AList.update key (TextField normalized) sanitized, warnings)
         | None \<Rightarrow> ignoreField key v st)
      else if key = ''wedding_time'' then
        (case formatWeddingTimeForSupabase v of
           Some formatted \<Rightarrow> Inr (AList.update key (TextField formatted) sanitized, warnings)
         | None \<Rightarrow> ignoreField key v st)
      else if key = ''expected_guest_count'' then
        (case normalizeInteger v of
           Some count \<Rightarrow> Inr (AList.update key (NumberField count) sanitized, warnings)
         | None \<Rightarrow> ignoreField key v st)
      else if key = ''total_budget'' then
        (case normalizeCurrency v of
           Some budget \<Rightarrow> Inr (AList.update key (NumberField budget) sanitized, warnings)
         | None \<Rightarrow> ignoreField key v st)
      else if key = ''venue_cost'' then
        (case normalizeCurrency v of
           Some cost \<Rightarrow> Inr (AList.update key (NumberField cost) sanitized, warnings)
         | None \<Rightarrow> ignoreField key v st)
      else if key \<in> set TEXT_KEYS then
        (case toTrimmedString v of
           Some str \<Rightarrow> Inr (AList.update key (TextField str) sanitized, warnings)
         | None \<Rightarrow> Inr st)
      else Inr st)"

text \<open>\<^verbatim>\<open>sanitizeWeddingInfo\<close>, lines 264-346.\<close>

definition sanitizeWeddingInfo :: "jsval \<Rightarrow> error + profile \<times> warning list" where
  "sanitizeWeddingInfo weddingInfo =
     (if \<not> truthy weddingInfo \<or> \<not> typeofObject weddingInfo then Inr ([], [])
      else foldE weddingInfoEntry (objectEntries weddingInfo) ([], []))"

section \<open>Vendor sanitizer\<close>

record sanitizedVendor =
  vendor_type :: string
  vendor_name :: string
  vendor_contact_name :: "string option"
  vendor_email :: "string option"
  vendor_phone :: "string option"
  total_cost :: "int option"
  deposit_amount :: "int option"
  deposit_paid :: "bool option"
  deposit_date :: "string option"
  balance_due :: "int option"
  final_payment_date :: "string option"
  final_payment_paid :: "bool option"
  vendor_status :: "string option"
  contract_signed :: "bool option"
  contract_date :: "string option"
  service_date :: "string option"
  vendor_notes :: "string option"

text \<open>\<^verbatim>\<open>vendorKey\<close>, lines 102-104.\<close>

definition vendorKey :: "string \<Rightarrow> string \<Rightarrow> string" where
  "vendorKey type name = type @ '':'' @ toLowerCase name"

text \<open>
  Lines 383-417 of the callback of \<^verbatim>\<open>sanitizeVendors\<close>: the fields of an accepted
  vendor, with the warnings pushed on the way. The fields \<^verbatim>\<open>status\<close> and
  \<^verbatim>\<open>notes\<close> of the source are \<open>vendor_status\<close> and \<open>vendor_notes\<close> here.
\<close>

definition buildVendor ::
  "jsval \<Rightarrow> string \<Rightarrow> string \<Rightarrow> error + sanitizedVendor \<times> warning list" where
  "buildVendor vendor vendorName vendorType =
     (let totalCost = normalizeCurrency (getProp vendor ''total_cost'');
          depositAmount = normalizeCurrency (getProp vendor ''deposit_amount'');
          balanceDue = normalizeCurrency (getProp vendor ''balance_due'');
          exceeds = (case (totalCost, depositAmount) of
                       (Some t, Some d) \<Rightarrow> d > t
                     | _ \<Rightarrow> False);
          adjustedDeposit = (if exceeds then totalCost else depositAmount);
          w1 = (if exceeds then [VendorDepositAdjusted vendorName] else [])
      in case trimLowerOrNull (getProp vendor ''status'') of
           Inl e \<Rightarrow> Inl e
         | Inr status \<Rightarrow>
             (let canonicalStatus = canonicalIn VENDOR_STATUSES status;
                  w2 = (if status \<noteq> None \<and> status \<noteq> Some [] \<and> canonicalStatus = None
                        then [VendorStatusDropped (getProp vendor ''status'') vendorName]
                        else [])
              in Inr (\<lparr> vendor_type = vendorType,
                        vendor_name = vendorName,
                        vendor_contact_name = toTrimmedString (getProp vendor ''vendor_contact_name''),
                        vendor_email = validateEmail (getProp vendor ''vendor_email''),
                        vendor_phone = validatePhone (getProp vendor ''vendor_phone''),
                        total_cost = totalCost,
                        deposit_amount = adjustedDeposit,
                        deposit_paid = normalizeBoolean (getProp vendor ''deposit_paid''),
                        deposit_date = normalizeDate (getProp vendor ''deposit_date''),
                        balance_due = balanceDue,
                        final_payment_date = normalizeDate (getProp vendor ''final_payment_date''),
                        final_payment_paid = normalizeBoolean (getProp vendor ''final_payment_paid''),
                        vendor_status = canonicalStatus,
                        contract_signed = normalizeBoolean (getProp vendor ''contract_signed''),
                        contract_date = normalizeDate (getProp vendor ''contract_date''),
                        service_date = normalizeDate (getProp vendor ''service_date''),
                        vendor_notes = toTrimmedString (getProp vendor ''notes'') \<rparr>,
                      w1 @ w2)))"

type_synonym vendorState = "sanitizedVendor list \<times> warning list \<times> string set"

text \<open>
  The callback of \<^verbatim>\<open>vendors.forEach\<close>, lines 357-420, on the state
  \<open>(sanitized, warnings, seen)\<close>.
\<close>

definition vendorStep :: "vendorState \<Rightarrow> nat \<times> jsval \<Rightarrow> error + vendorState" where
  "vendorStep st iv =
     (case st of (sanitized, warnings, seen) \<Rightarrow>
      let index = fst iv; vendor = snd iv in
      if \<not> truthy vendor \<or> \<not> typeofObject vendor
      then Inr (sanitized, warnings @ [VendorNotObject index], seen)
      else
        (let vendorName = toTrimmedString (getProp vendor ''vendor_name'') in
         case canonicalizeVendorType (getProp vendor ''vendor_type'') of
           Inl e \<Rightarrow> Inl e
         | Inr vendorType \<Rightarrow>
            (case vendorName of
               None \<Rightarrow> Inr (sanitized, warnings @ [VendorMissingName index], seen)
             | Some name \<Rightarrow>
                (case vendorType of
                   None \<Rightarrow>
                     Inr (sanitized,
                          warnings @ [VendorUnsupportedType name (getProp vendor ''vendor_type'')],
                          seen)
                 | Some type \<Rightarrow>
                    (let key = vendorKey type name in
                     if key \<in> seen
                     then Inr (sanitized, warnings @ [VendorDuplicate name type], seen)
                     else case buildVendor vendor name type of
                            Inl e \<Rightarrow> Inl e
                          | Inr (sanitizedVendor, ws) \<Rightarrow>
                              Inr (sanitized @ [sanitizedVendor], warnings @ ws,
                                   insert key seen))))))"

text \<open>\<^verbatim>\<open>sanitizeVendors\<close>, lines 348-423.\<close>

definition sanitizeVendors :: "jsval \<Rightarrow> error + sanitizedVendor list \<times> warning list" where
  "sanitizeVendors vendors =
     (case vendors of
        JArr items \<Rightarrow>
          (if items = [] then Inr ([], [])
           else case foldE vendorStep (indexed items) ([], [], {}) of
                  Inl e \<Rightarrow> Inl e
                | Inr (sanitized, warnings, seen) \<Rightarrow> Inr (sanitized, warnings))
      | _ \<Rightarrow> Inr ([], []))"

section \<open>Budget item sanitizer\<close>

text \<open>
  A budget item of the accumulator; \<^verbatim>\<open>category\<close> and \<^verbatim>\<open>notes\<close> of the source
  are \<open>budget_category\<close> and \<open>budget_notes\<close> here.
\<close>

record budgetItem =
  budget_category :: string
  budgeted_amount :: "int option"
  spent_amount :: "int option"
  transaction_date :: "string option"
  transaction_amount :: "int option"
  transaction_description :: "string option"
  budget_notes :: "string option"

text \<open>The object that stands in when the category is not in the map yet, lines 455-463.\<close>

definition freshBudgetItem :: "string \<Rightarrow> budgetItem" where
  "freshBudgetItem category =
     \<lparr> budget_category = category, budgeted_amount = None, spent_amount = None,
       transaction_date = None, transaction_amount = None,
       transaction_description = None, budget_notes = None \<rparr>"

text \<open>
  Lines 465-489: the six conditional assignments to \<^verbatim>\<open>existing\<close>.
  \<^verbatim>\<open>(existing.spent_amount || 0) + spentAmount\<close> starts from 0 when nothing was
  spent so far.
\<close>

definition mergeBudgetItem ::
  "budgetItem \<Rightarrow> int option \<Rightarrow> int option \<Rightarrow> int option \<Rightarrow> string option
     \<Rightarrow> string option \<Rightarrow> string option \<Rightarrow> budgetItem" where
  "mergeBudgetItem existing budgetedAmount spentAmount transactionAmount transactionDate
       description notesText =
     existing
       \<lparr> budgeted_amount :=
           (case budgetedAmount of Some b \<Rightarrow> Some b | None \<Rightarrow> budgeted_amount existing),
         spent_amount :=
           (case spentAmount of
              Some s \<Rightarrow> Some ((case spent_amount existing of Some x \<Rightarrow> x | None \<Rightarrow> 0) + s)
            | None \<Rightarrow> spent_amount existing),
         transaction_amount :=
           (case transactionAmount of
              Some a \<Rightarrow> Some a | None \<Rightarrow> transaction_amount existing),
         transaction_date :=
           (case transactionDate of Some d \<Rightarrow> Some d | None \<Rightarrow> transaction_date existing),
         transaction_description :=
           (case description of
              Some d \<Rightarrow> Some d | None \<Rightarrow> transaction_description existing),
         budget_notes :=
           (case notesText of Some n \<Rightarrow> Some n | None \<Rightarrow> budget_notes existing) \<rparr>"

type_synonym budgetState = "(string \<times> budgetItem) list \<times> warning list"

text \<open>
  The callback of \<^verbatim>\<open>budgetItems.forEach\<close>, lines 433-496, on the state
  \<open>(aggregated, warnings)\<close>. The \<^verbatim>\<open>Map\<close> keeps its keys in the order they were
  first set, as the association list does under \<open>AList.update\<close>.
\<close>

definition budgetStep :: "budgetState \<Rightarrow> nat \<times> jsval \<Rightarrow> error + budgetState" where
  "budgetStep st iv =
     (case st of (aggregated, warnings) \<Rightarrow>
      let index = fst iv; item = snd iv in
      if \<not> truthy item \<or> \<not> typeofObject item
      then Inr (aggregated, warnings @ [BudgetNotObject index])
      else case canonicalizeBudgetCategory (getProp item ''category'') of
        Inl e \<Rightarrow> Inl e
      | Inr None \<Rightarrow>
          Inr (aggregated,
               warnings @ [BudgetUnsupportedCategory index (getProp item ''category'')])
      | Inr (Some category) \<Rightarrow>
          (let budgetedAmount = normalizeCurrency (getProp item ''budgeted_amount'');
               spentAmount = normalizeCurrency (getProp item ''spent_amount'');
               transactionAmount = normalizeCurrency (getProp item ''transaction_amount'');
               transactionDate = normalizeDate (getProp item ''transaction_date'')
           in if budgetedAmount = None \<and> spentAmount = None \<and> transactionAmount = None
              then Inr (aggregated, warnings @ [BudgetNoAmounts category])
              else
                (let existing = (case map_of aggregated category of
                                   Some e \<Rightarrow> e
                                 | None \<Rightarrow> freshBudgetItem category);
                     merged = mergeBudgetItem existing budgetedAmount spentAmount
                                transactionAmount transactionDate
                                (toTrimmedString (getProp item ''transaction_description''))
                                (toTrimmedString (getProp item ''notes''))
                 in Inr (AList.update category merged aggregated,
                         warnings @ (if category \<in> fst ` set aggregated
                                     then [BudgetMerged category] else [])))))"

text \<open>\<^verbatim>\<open>sanitizeBudgetItems\<close>, lines 425-499.\<close>

definition sanitizeBudgetItems :: "jsval \<Rightarrow> error + budgetItem list \<times> warning list" where
  "sanitizeBudgetItems budgetItems =
     (case budgetItems of
        JArr items \<Rightarrow>
          (if items = [] then Inr ([], [])
           else case foldE budgetStep (indexed items) ([], []) of
                  Inl e \<Rightarrow> Inl e
                | Inr (aggregated, warnings) \<Rightarrow> Inr (map snd aggregated, warnings))
      | _ \<Rightarrow> Inr ([], []))"

section \<open>Task sanitizer\<close>

text \<open>
  A sanitized task; \<^verbatim>\<open>category\<close>, \<^verbatim>\<open>status\<close>, \<^verbatim>\<open>priority\<close> and
  \<^verbatim>\<open>notes\<close> of the source carry the prefix \<open>task_\<close> here.
\<close>

record sanitizedTask =
  task_name :: string
  task_description :: "string option"
  task_category :: "string option"
  due_date :: "string option"
  task_status :: "string option"
  task_priority :: "string option"
  task_notes :: "string option"

text \<open>\<^verbatim>\<open>taskDeterministicId\<close>, lines 106-108.\<close>

definition taskDeterministicId :: "string \<Rightarrow> string option \<Rightarrow> string" where
  "taskDeterministicId name dueDate =
     toLowerCase name @ ''::'' @ (case dueDate of Some d \<Rightarrow> d | None \<Rightarrow> ''none'')"

text \<open>
  \<^verbatim>\<open>if (raw && !canonical) warnings.push(...)\<close>: the warning for a raw value that
  was there and did not resolve.
\<close>

definition droppedWarning :: "bool \<Rightarrow> 'a option \<Rightarrow> warning \<Rightarrow> warning list" where
  "droppedWarning present canonical w = (if present \<and> canonical = None then [w] else [])"

type_synonym taskState = "sanitizedTask list \<times> warning list \<times> string set"

text \<open>
  The callback of \<^verbatim>\<open>tasks.forEach\<close>, lines 510-560, on the state
  \<open>(sanitized, warnings, seen)\<close>.
\<close>

definition taskStep :: "taskState \<Rightarrow> nat \<times> jsval \<Rightarrow> error + taskState" where
  "taskStep st iv =
     (case st of (sanitized, warnings, seen) \<Rightarrow>
      let index = fst iv; task = snd iv in
      if \<not> truthy task \<or> \<not> typeofObject task
      then Inr (sanitized, warnings @ [TaskNotObject index], seen)
      else case toTrimmedString (getProp task ''task_name'') of
        None \<Rightarrow> Inr (sanitized, warnings @ [TaskMissingName index], seen)
      | Some name \<Rightarrow>
          (let dueDate = normalizeDate (getProp task ''due_date'');
               w1 = droppedWarning (truthy (getProp task ''due_date'')) dueDate
                      (TaskDueDateRemoved name)
           in case canonicalizeTaskCategory (getProp task ''category'') of
             Inl e \<Rightarrow> Inl e
           | Inr category \<Rightarrow>
              (let w2 = droppedWarning (truthy (getProp task ''category'')) category
                          (TaskCategoryDropped (getProp task ''category'') name)
               in case trimLowerOrNull (getProp task ''status'') of
                 Inl e \<Rightarrow> Inl e
               | Inr status \<Rightarrow>
                  (let canonicalStatus = canonicalIn TASK_STATUSES status;
                       w3 = droppedWarning (status \<noteq> None \<and> status \<noteq> Some []) canonicalStatus
                              (TaskStatusDropped (getProp task ''status'') name)
                   in case trimLowerOrNull (getProp task ''priority'') of
                     Inl e \<Rightarrow> Inl e
                   | Inr priority \<Rightarrow>
                      (let canonicalPriority = canonicalIn TASK_PRIORITIES priority;
                           w4 = droppedWarning (priority \<noteq> None \<and> priority \<noteq> Some [])
                                  canonicalPriority
                                  (TaskPriorityDropped (getProp task ''priority'') name);
                           slug = taskDeterministicId name dueDate
                       in if slug \<in> seen
                          then Inr (sanitized,
                                    warnings @ w1 @ w2 @ w3 @ w4 @ [TaskDuplicate name dueDate],
                                    seen)
                          else Inr (sanitized @
                                      [\<lparr> task_name = name,
                                         task_description =
                                           toTrimmedString (getProp task ''task_description''),
                                         task_category = category,
                                         due_date = dueDate,
                                         task_status = canonicalStatus,
                                         task_priority = canonicalPriority,
                                         task_notes = toTrimmedString (getProp task ''notes'') \<rparr>],
                                    warnings @ w1 @ w2 @ w3 @ w4,
                                    insert slug seen))))))"

text \<open>\<^verbatim>\<open>sanitizeTasks\<close>, lines 501-563.\<close>

definition sanitizeTasks :: "jsval \<Rightarrow> error + sanitizedTask list \<times> warning list" where
  "sanitizeTasks tasks =
     (case tasks of
        JArr items \<Rightarrow>
          (if items = [] then Inr ([], [])
           else case foldE taskStep (indexed items) ([], [], {}) of
                  Inl e \<Rightarrow> Inl e
                | Inr (sanitized, warnings, seen) \<Rightarrow> Inr (sanitized, warnings))
      | _ \<Rightarrow> Inr ([], []))"

section \<open>Orchestrator\<close>

definition MAX_EXTRACTED_JSON_CHARS :: nat where
  "MAX_EXTRACTED_JSON_CHARS = 12000"

record payloadResult =
  weddingInfo :: profile
  vendors :: "sanitizedVendor list"
  budgetItems :: "budgetItem list"
  tasks :: "sanitizedTask list"
  warnings :: "warning list"
  parseError :: "error option"

text \<open>The result as lines 566-573 initialise it.\<close>

definition emptyResult :: payloadResult where
  "emptyResult =
     \<lparr> weddingInfo = [], vendors = [], budgetItems = [], tasks = [], warnings = [],
       parseError = None \<rparr>"

text \<open>
  \<^verbatim>\<open>processClaudePayload\<close>, lines 565-615. \<^verbatim>\<open>JSON.parse\<close> is the language's own
  and is a parameter here: \<open>JSON_parse text\<close> is \<open>None\<close> when \<^verbatim>\<open>JSON.parse(text)\<close>
  throws its SyntaxError, which the \<^verbatim>\<open>catch\<close> stores, and the parsed value
  otherwise. The result \<open>Inl e\<close> is the exception \<open>e\<close> leaving the function.
  Reading \<^verbatim>\<open>parsed.wedding_info\<close> throws when the document is \<^verbatim>\<open>null\<close>.
\<close>

definition processClaudePayload ::
  "(string \<Rightarrow> jsval option) \<Rightarrow> jsval \<Rightarrow> error + payloadResult" where
  "processClaudePayload JSON_parse rawExtractedDataText =
     (if \<not> truthy rawExtractedDataText then Inr emptyResult
      else case rawExtractedDataText of
        JStr s \<Rightarrow>
          (let trimmed = trim s in
           if trimmed = [] then Inr emptyResult
           else if length trimmed > MAX_EXTRACTED_JSON_CHARS
           then Inr (emptyResult \<lparr> warnings := [PayloadTooLarge] \<rparr>)
           else case JSON_parse trimmed of
             None \<Rightarrow>
               Inr (emptyResult \<lparr> parseError := Some SyntaxError,
                                  warnings := [PayloadUnreadable] \<rparr>)
           | Some parsed \<Rightarrow>
               if parsed = JNull \<or> parsed = JUndefined then Inl TypeError
               else case sanitizeWeddingInfo (getProp parsed ''wedding_info'') of
                 Inl e \<Rightarrow> Inl e
               | Inr (sanitizedWeddingInfo, weddingInfoWarnings) \<Rightarrow>
                  (case sanitizeVendors (getProp parsed ''vendors'') of
                     Inl e \<Rightarrow> Inl e
                   | Inr (sanitizedVendors, vendorWarnings) \<Rightarrow>
                      (case sanitizeBudgetItems (getProp parsed ''budget_items'') of
                         Inl e \<Rightarrow> Inl e
                       | Inr (sanitizedBudgetItems, budgetWarnings) \<Rightarrow>
                          (case sanitizeTasks (getProp parsed ''tasks'') of
                             Inl e \<Rightarrow> Inl e
                           | Inr (sanitizedTasks, taskWarnings) \<Rightarrow>
                               Inr \<lparr> weddingInfo = sanitizedWeddingInfo,
                                     vendors = sanitizedVendors,
                                     budgetItems = sanitizedBudgetItems,
                                     tasks = sanitizedTasks,
                                     warnings = weddingInfoWarnings @ vendorWarnings
                                                @ budgetWarnings @ taskWarnings,
                                     parseError = None \<rparr>))))
      | _ \<Rightarrow> Inr emptyResult)"

section \<open>Notions the properties are stated with\<close>

text \<open>
  The definitions of this section are not code of the repository: they name what the
  properties below speak about.
\<close>

subsection \<open>First and later occurrences\<close>

text \<open>
  \<open>firstOcc f S xs\<close> keeps of \<open>xs\<close>, in order, each element whose key \<open>f x\<close> is
  neither in \<open>S\<close> nor the key of an element before it; \<open>laterOcc f S xs\<close> is the
  rest, in order.
\<close>

fun firstOcc :: "('a \<Rightarrow> 'k) \<Rightarrow> 'k set \<Rightarrow> 'a list \<Rightarrow> 'a list" where
  "firstOcc f S [] = []"
| "firstOcc f S (x # xs) =
     (if f x \<in> S then firstOcc f S xs else x # firstOcc f (insert (f x) S) xs)"

fun laterOcc :: "('a \<Rightarrow> 'k) \<Rightarrow> 'k set \<Rightarrow> 'a list \<Rightarrow> 'a list" where
  "laterOcc f S [] = []"
| "laterOcc f S (x # xs) =
     (if f x \<in> S then x # laterOcc f S xs else laterOcc f (insert (f x) S) xs)"

subsection \<open>Calendar dates\<close>

text \<open>
  A string of the shape \<^verbatim>\<open>YYYY-MM-DD\<close> denotes a real calendar date when its month
  is 1 to 12 and its day is 1 to the number of days of that month in that year.
\<close>

definition realCalendarDate :: "string \<Rightarrow> bool" where
  "realCalendarDate s \<longleftrightarrow>
     (let y = parseDigits (take 4 s); m = parseDigits (take 2 (drop 5 s)); d = parseDigits (drop 8 s)
      in 1 \<le> m \<and> m \<le> 12 \<and> 1 \<le> d \<and> d \<le> daysInMonth y m)"

subsection \<open>Vendors\<close>

text \<open>
  The identity of a vendor item: its canonical type and trimmed name, when the item is
  an object, the type resolves and the name is not blank. Its identity key, as the
  specification has it, is the pair of the canonical type and the lowercased name.
\<close>

definition vendorIdentity :: "jsval \<Rightarrow> (string \<times> string) option" where
  "vendorIdentity vendor =
     (if \<not> truthy vendor \<or> \<not> typeofObject vendor then None
      else case (canonicalizeVendorType (getProp vendor ''vendor_type''),
                 toTrimmedString (getProp vendor ''vendor_name'')) of
             (Inr (Some t), Some n) \<Rightarrow> Some (t, n)
           | _ \<Rightarrow> None)"

definition vendorItemKey :: "jsval \<Rightarrow> (string \<times> string) option" where
  "vendorItemKey vendor = map_option (\<lambda>(t, n). (t, toLowerCase n)) (vendorIdentity vendor)"

text \<open>
  The items with an identity, the first item of every identity key among them, and
  the items that repeat the key of an earlier one.
\<close>

definition identifiedVendors :: "jsval list \<Rightarrow> jsval list" where
  "identifiedVendors items = filter (\<lambda>v. vendorIdentity v \<noteq> None) items"

definition acceptedVendors :: "jsval list \<Rightarrow> jsval list" where
  "acceptedVendors items = firstOcc vendorItemKey {} (identifiedVendors items)"

definition duplicateVendors :: "jsval list \<Rightarrow> jsval list" where
  "duplicateVendors items = laterOcc vendorItemKey {} (identifiedVendors items)"

text \<open>The duplicate warnings, and the one an item with an identity gets.\<close>

definition isVendorDuplicate :: "warning \<Rightarrow> bool" where
  "isVendorDuplicate w = (case w of VendorDuplicate n t \<Rightarrow> True | _ \<Rightarrow> False)"

definition vendorDuplicateWarning :: "jsval \<Rightarrow> warning" where
  "vendorDuplicateWarning vendor =
     (case vendorIdentity vendor of
        Some (t, n) \<Rightarrow> VendorDuplicate n t
      | None \<Rightarrow> VendorDuplicate [] [])"

text \<open>The string the code keeps in \<^verbatim>\<open>seen\<close> for an item with an identity.\<close>

definition vendorStringKey :: "jsval \<Rightarrow> string" where
  "vendorStringKey vendor = (case vendorIdentity vendor of Some (t, n) \<Rightarrow> vendorKey t n | None \<Rightarrow> [])"

text \<open>
  \<open>vendorBuilt ws v r\<close>: the record \<open>r\<close> is what lines 383-417 build from the item
  \<open>v\<close>, and the warnings pushed on the way are among \<open>ws\<close>.
\<close>

definition vendorBuilt :: "warning list \<Rightarrow> jsval \<Rightarrow> sanitizedVendor \<Rightarrow> bool" where
  "vendorBuilt ws v r \<longleftrightarrow>
     (\<exists>t n w. vendorIdentity v = Some (t, n) \<and> buildVendor v n t = Inr (r, w) \<and> set w \<subseteq> set ws)"

text \<open>
  A value on which \<^verbatim>\<open>value.trim()\<close> is never called on a non-string: a string or a
  falsy value. An item whose type and status are such makes no step of the vendor
  loop throw.
\<close>

definition stringOrFalsy :: "jsval \<Rightarrow> bool" where
  "stringOrFalsy v = (case v of JStr s \<Rightarrow> True | _ \<Rightarrow> \<not> truthy v)"

definition vendorFieldsSafe :: "jsval \<Rightarrow> bool" where
  "vendorFieldsSafe vendor \<longleftrightarrow>
     stringOrFalsy (getProp vendor ''vendor_type'') \<and> stringOrFalsy (getProp vendor ''status'')"

text \<open>Three vendor items: an over-large deposit, a duplicate, and a second type.\<close>

definition exampleVendors :: "jsval list" where
  "exampleVendors =
     [JObj [(''vendor_type'', JStr ''photo''), (''vendor_name'', JStr ''Lens''),
            (''total_cost'', JNum 100), (''deposit_amount'', JNum 150)],
      JObj [(''vendor_type'', JStr ''photography''), (''vendor_name'', JStr '' LENS '')],
      JObj [(''vendor_type'', JStr ''florist''), (''vendor_name'', JStr ''Lens'')]]"

subsection \<open>Tasks\<close>











subsection \<open>Budget items\<close>










subsection \<open>Profile fields\<close>

text \<open>
  The five keys whose values have a format, the raw values the loop skips, and the
  validator of a recognized key with the value it stores (\<open>None\<close> for a value it
  rejects and for a key that is not recognized).
\<close>

definition TYPED_KEYS :: "string list" where
  "TYPED_KEYS =
     [''wedding_date'', ''wedding_time'', ''expected_guest_count'', ''total_budget'',
      ''venue_cost'']"

definition skippedValue :: "jsval \<Rightarrow> bool" where
  "skippedValue v \<longleftrightarrow> v = JNull \<or> v = JUndefined \<or> v = JStr []"

definition validateField :: "string \<Rightarrow> jsval \<Rightarrow> fieldValue option" where
  "validateField key v =
     (if key = ''wedding_date'' then map_option TextField (normalizeDate v)
      else if key = ''wedding_time'' then map_option TextField (formatWeddingTimeForSupabase v)
      else if key = ''expected_guest_count''
        then map_option NumberField (normalizeInteger v)
      else if key = ''total_budget'' \<or> key = ''venue_cost''
        then map_option NumberField (normalizeCurrency v)
      else if key \<in> set TEXT_KEYS then map_option TextField (toTrimmedString v)
      else None)"

text \<open>
  What one entry of the input contributes: the field it stores, and the warning it
  leaves. Only a key with a format warns.
\<close>

definition acceptedField :: "string \<times> jsval \<Rightarrow> (string \<times> fieldValue) option" where
  "acceptedField kv =
     (if skippedValue (snd kv) then None
      else map_option (Pair (fst kv)) (validateField (fst kv) (snd kv)))"

definition fieldWarning :: "string \<times> jsval \<Rightarrow> warning option" where
  "fieldWarning kv =
     (if \<not> skippedValue (snd kv) \<and> fst kv \<in> set TYPED_KEYS
         \<and> validateField (fst kv) (snd kv) = None
      then Some (IgnoredField (fst kv) (snd kv)) else None)"

text \<open>
  A profile with an invalid date, a time, a number for a name, a key that is not
  recognized, a null, a padded name, an amount and a boolean for a count.
\<close>

definition exampleProfile :: "(string \<times> jsval) list" where
  "exampleProfile =
     [(''wedding_date'', JStr ''next spring''), (''wedding_time'', JStr ''5:30pm''),
      (''partner1_name'', JNum 5), (''favourite_colour'', JStr ''teal''),
      (''venue_cost'', JNull), (''partner2_name'', JStr '' Al ''),
      (''total_budget'', JStr ''$950''), (''expected_guest_count'', JBool True)]"

subsection \<open>Payloads\<close>

text \<open>
  A stand-in for \<^verbatim>\<open>JSON.parse\<close> that reads one text as one document and rejects
  every other text.
\<close>

definition parseOnly :: "string \<Rightarrow> jsval \<Rightarrow> string \<Rightarrow> jsval option" where
  "parseOnly text doc = (\<lambda>t. if t = text then Some doc else None)"

text \<open>A well-formed document whose vendor has a number where its type should be.\<close>

definition failingPayloadText :: string where
  \<open>failingPayloadText = ''{"vendors":[{"vendor_name":"A","vendor_type":5}]}''\<close>

definition failingPayload :: jsval where
  "failingPayload =
     JObj [(''vendors'', JArr [JObj [(''vendor_name'', JStr ''A''), (''vendor_type'', JNum 5)]])]"

section \<open>Properties\<close>

subsection \<open>Occurrences and lists\<close>

lemma firstOcc_key_change:
  assumes "\<And>x y. x \<in> A \<Longrightarrow> y \<in> A \<Longrightarrow> (f x = f y) = (g x = g y)"
    and "set xs \<subseteq> A" and "B \<subseteq> A"
  shows "firstOcc f (f ` B) xs = firstOcc g (g ` B) xs \<and> laterOcc f (f ` B) xs = laterOcc g (g ` B) xs"
  using assms(2,3)
proof (induction xs arbitrary: B)
  case Nil
  then show ?case by simp
next
  case (Cons x xs)
  have mem: "(f x \<in> f ` B) = (g x \<in> g ` B)"
    using Cons.prems assms(1) by (auto simp: image_iff subset_iff)
  have ins: "insert (f x) (f ` B) = f ` insert x B" "insert (g x) (g ` B) = g ` insert x B"
    by auto
  from Cons.prems have p1: "set xs \<subseteq> A" "insert x B \<subseteq> A" by auto
  show ?case
    using Cons.IH[OF p1(1) Cons.prems(2)] Cons.IH[OF p1] mem
    by (simp add: ins del: image_insert)
qed

lemma firstOcc_set: "set (firstOcc f S xs) \<subseteq> set xs"
  by (induction xs arbitrary: S) auto

lemma firstOcc_keys: "f ` set (firstOcc f S xs) = f ` set xs - S"
  by (induction xs arbitrary: S) auto

lemma firstOcc_distinct: "distinct (map f (firstOcc f S xs))"
proof (induction xs arbitrary: S)
  case Nil
  then show ?case by simp
next
  case (Cons x xs)
  have "f x \<notin> f ` set (firstOcc f (insert (f x) S) xs)"
    by (simp add: firstOcc_keys)
  with Cons show ?case by auto
qed

lemma firstOcc_filter_nth:
  "i < length xs \<Longrightarrow> P (xs ! i) \<Longrightarrow> f (xs ! i) \<notin> S \<Longrightarrow> \<forall>j<i. f (xs ! j) \<noteq> f (xs ! i)
     \<Longrightarrow> xs ! i \<in> set (firstOcc f S (filter P xs))"
proof (induction xs arbitrary: S i)
  case Nil
  then show ?case by simp
next
  case (Cons x xs)
  show ?case
  proof (cases i)
    case 0
    with Cons.prems show ?thesis by simp
  next
    case (Suc k)
    with Cons.prems have k: "k < length xs" and pk: "P (xs ! k)" by simp_all
    from Cons.prems Suc have ne: "f x \<noteq> f (xs ! k)" by auto
    from Cons.prems Suc have later: "\<forall>j<k. f (xs ! j) \<noteq> f (xs ! k)" by auto
    from Cons.prems Suc have notin: "f (xs ! k) \<notin> S" by simp
    have "xs ! k \<in> set (firstOcc f S (filter P xs))" using Cons.IH[OF k pk notin later] .
    moreover have "xs ! k \<in> set (firstOcc f (insert (f x) S) (filter P xs))"
      using Cons.IH[OF k pk _ later, of "insert (f x) S"] notin ne by auto
    ultimately show ?thesis using Suc by simp
  qed
qed

lemma list_all2_left:
  "list_all2 P xs ys \<Longrightarrow> x \<in> set xs \<Longrightarrow> \<exists>y \<in> set ys. P x y"
  by (induction rule: list_all2_induct) auto

lemma list_all2_right:
  "list_all2 P xs ys \<Longrightarrow> y \<in> set ys \<Longrightarrow> \<exists>x \<in> set xs. P x y"
  by (induction rule: list_all2_induct) auto

lemma list_all2_map_eq:
  "list_all2 P xs ys \<Longrightarrow> (\<And>x y. P x y \<Longrightarrow> f x = g y) \<Longrightarrow> map f xs = map g ys"
  by (induction rule: list_all2_induct) auto

lemma map_snd_indexed: "map snd (indexed xs) = xs"
  by (simp add: indexed_def)

subsection \<open>Dates\<close>

lemma length10: "length t = 10 \<Longrightarrow> \<exists>a b c d e f g h i j. t = [a,b,c,d,e,f,g,h,i,j]"
  by (auto simp: length_Suc_conv eval_nat_numeral)

lemma date_reassemble:
  assumes "matchesDateRegex t"
  shows "padStart 4 CHR ''0'' (take 4 t) @ ''-'' @ padStart 2 CHR ''0'' (take 2 (drop 5 t))
                                @ ''-'' @ padStart 2 CHR ''0'' (drop 8 t) = t"
proof -
  from assms have len: "length t = 10" and d1: "t ! 4 = CHR ''-''" and d2: "t ! 7 = CHR ''-''"
    by (simp_all add: matchesDateRegex_def)
  from length10[OF len] obtain a b c d e f g h i j where t: "t = [a,b,c,d,e,f,g,h,i,j]" by blast
  with d1 d2 show ?thesis by (simp add: padStart_def)
qed

lemma daysInMonth_le: "daysInMonth y m \<le> 31" "28 \<le> daysInMonth y m"
  by (simp_all add: daysInMonth_def)

lemma newDateUTC_roundtrip:
  "(case newDateUTC y m d of None \<Rightarrow> False | Some (y', m', d') \<Rightarrow> y' = y \<and> m' = m \<and> d' = d)
   \<longleftrightarrow> 1 \<le> m \<and> m \<le> 12 \<and> 1 \<le> d \<and> d \<le> daysInMonth y m"
  using daysInMonth_le[of y m] by (auto simp: newDateUTC_def)

lemma trim_Nil: "trim [] = []" by (simp add: trim_def)

lemma normalizeDate_char:
  "normalizeDate (JStr s) =
     (if matchesDateRegex (trim s) \<and> realCalendarDate (trim s) then Some (trim s) else None)"
proof (cases "matchesDateRegex (trim s)")
  case False
  then show ?thesis by (simp add: normalizeDate_def Let_def)
next
  case True
  then have "length (trim s) = 10" by (simp add: matchesDateRegex_def)
  then have ne: "trim s \<noteq> []" "s \<noteq> []" by (auto simp: trim_Nil)
  show ?thesis
    using True ne newDateUTC_roundtrip[of "parseDigits (take 4 (trim s))" "parseDigits (take 2 (drop 5 (trim s)))" "parseDigits (drop 8 (trim s))"]
      date_reassemble[OF True]
    by (auto simp: normalizeDate_def Let_def realCalendarDate_def split: option.splits)
qed

lemma trim_id: "s \<noteq> [] \<Longrightarrow> \<not> isWhiteSpace (hd s) \<Longrightarrow> \<not> isWhiteSpace (last s) \<Longrightarrow> trim s = s"
proof -
  assume a: "s \<noteq> []" "\<not> isWhiteSpace (hd s)" "\<not> isWhiteSpace (last s)"
  have dw: "\<And>xs. xs \<noteq> [] \<Longrightarrow> \<not> isWhiteSpace (hd xs) \<Longrightarrow> dropWhile isWhiteSpace xs = xs"
    by (case_tac xs) simp_all
  from a have "dropWhile isWhiteSpace s = s" by (simp add: dw)
  moreover from a have "dropWhile isWhiteSpace (rev s) = rev s" by (simp add: dw hd_rev)
  ultimately show ?thesis by (simp add: trim_def)
qed

lemma digit_not_ws: "isDigit c \<Longrightarrow> \<not> isWhiteSpace c"
  by (auto simp: isDigit_def isWhiteSpace_def)

lemma matches_trim: "matchesDateRegex s \<Longrightarrow> trim s = s"
proof -
  assume m: "matchesDateRegex s"
  then have len: "length s = 10" by (simp add: matchesDateRegex_def)
  from length10[OF len] obtain a b c d e f g h i j where t: "s = [a,b,c,d,e,f,g,h,i,j]" by blast
  with m have "isDigit a" "isDigit j" by (simp_all add: matchesDateRegex_def)
  then show ?thesis using t by (intro trim_id) (simp_all add: digit_not_ws)
qed

text \<open>
  Claim C9 fails as stated for a string with white space around a date: the pattern
  does not match the string, yet the normalizer trims it first and returns the date.
\<close>

theorem normalizeDate_padded_counterexample:
  "\<not> matchesDateRegex '' 2025-01-01''
   \<and> normalizeDate (JStr '' 2025-01-01'') = Some ''2025-01-01''"
  by code_simp

text \<open>
  Claim C9, amended: a string of the shape \<^verbatim>\<open>YYYY-MM-DD\<close> that denotes a real
  calendar date is returned as it is; in general the normalizer trims the string
  first, returns the trimmed string when that has the shape and denotes a real
  calendar date, and returns no value when the trimmed string does not match the
  pattern or has a month or day out of range.
\<close>

theorem normalizeDate_roundtrip:
  "(matchesDateRegex s \<and> realCalendarDate s \<longrightarrow> normalizeDate (JStr s) = Some s)
   \<and> (matchesDateRegex (trim s) \<and> realCalendarDate (trim s)
        \<longrightarrow> normalizeDate (JStr s) = Some (trim s))
   \<and> (\<not> matchesDateRegex (trim s) \<or> \<not> realCalendarDate (trim s)
        \<longrightarrow> normalizeDate (JStr s) = None)"
  using matches_trim[of s] by (auto simp: normalizeDate_char)

theorem normalizeDate_roundtrip_witness:
  "matchesDateRegex ''2025-09-20'' \<and> realCalendarDate ''2025-09-20''
   \<and> normalizeDate (JStr ''2025-09-20'') = Some ''2025-09-20''
   \<and> \<not> realCalendarDate (trim ''2025-02-30'')
   \<and> normalizeDate (JStr ''2025-02-30'') = None
   \<and> \<not> matchesDateRegex (trim ''20 Sept 2025'')
   \<and> normalizeDate (JStr ''20 Sept 2025'') = None"
proof -
  have h1: "matchesDateRegex ''2025-09-20'' \<and> realCalendarDate ''2025-09-20''"
    by code_simp
  have h2: "\<not> realCalendarDate (trim ''2025-02-30'')"
    by code_simp
  have h3: "\<not> matchesDateRegex (trim ''20 Sept 2025'')"
    by code_simp
  show ?thesis
    using h1 h2 h3 normalizeDate_roundtrip[of "''2025-09-20''"]
      normalizeDate_roundtrip[of "''2025-02-30''"]
      normalizeDate_roundtrip[of "''20 Sept 2025''"]
    by simp
qed

subsection \<open>Time of day\<close>

text \<open>The table of the specification: the four rows hold.\<close>

lemma formatWeddingTime_table:
  "formatWeddingTimeForSupabase (JStr ''5:30pm'') = Some ''17:30''
   \<and> formatWeddingTimeForSupabase (JStr ''noon'') = Some ''12:00''
   \<and> formatWeddingTimeForSupabase (JStr ''14:00'') = Some ''14:00''
   \<and> formatWeddingTimeForSupabase (JStr ''soon'') = None"
  by code_simp

text \<open>
  Claim C5 says that an output of the time-of-day normalizer is always a valid
  24-hour time. The am/pm pattern takes any one or two digits as the hour and any two
  digits as the minutes, without the range checks the other patterns have: 13pm
  becomes hour 25, and 5:75pm has 75 minutes.
\<close>

theorem formatWeddingTime_out_of_range:
  "formatWeddingTimeForSupabase (JStr ''13pm'') = Some ''25:00''
   \<and> formatWeddingTimeForSupabase (JStr ''5:75pm'') = Some ''17:75''"
  by code_simp

subsection \<open>Orchestrator\<close>

lemma trim_replicate: "\<not> isWhiteSpace c \<Longrightarrow> trim (replicate n c) = replicate n c"
  by (simp add: trim_def dropWhile_replicate)

text \<open>
  Claim C1 says that no exception leaves \<open>processClaudePayload\<close>, also for a
  numeric vendor type. The document of \<open>failingPayloadText\<close> parses, and
  \<open>canonicalizeVendorType\<close> then calls \<^verbatim>\<open>trim\<close> on the number 5: a TypeError
  leaves the function.
\<close>

theorem processClaudePayload_throws:
  "processClaudePayload (parseOnly failingPayloadText failingPayload) (JStr failingPayloadText)
     = Inl TypeError"
  by code_simp

text \<open>
  Claim C2 fails as stated for a blank text: it is of acceptable length and is not
  JSON, yet the function returns before the parser is called, with no parse error
  and no warning.
\<close>

theorem blank_payload_counterexample:
  "length (trim '' '') \<le> MAX_EXTRACTED_JSON_CHARS
   \<and> processClaudePayload (\<lambda>text. None) (JStr '' '') = Inr emptyResult
   \<and> parseError emptyResult = None \<and> warnings emptyResult = []"
  by code_simp

text \<open>
  Claim C2, amended: a text whose trimmed length exceeds the maximum gives the empty
  result with exactly the size-limit warning and no parse error, whatever the parser
  would say (it is not called); a text that is not blank, of acceptable length, and
  that the parser rejects gives the empty result with the parse error set and exactly
  the one warning.
\<close>

theorem payload_size_and_parse_failure:
  "(length (trim s) > MAX_EXTRACTED_JSON_CHARS \<longrightarrow>
      processClaudePayload JSON_parse (JStr s) = Inr (emptyResult \<lparr> warnings := [PayloadTooLarge] \<rparr>))
   \<and> (trim s \<noteq> [] \<and> length (trim s) \<le> MAX_EXTRACTED_JSON_CHARS \<and> JSON_parse (trim s) = None \<longrightarrow>
      processClaudePayload JSON_parse (JStr s)
        = Inr (emptyResult \<lparr> parseError := Some SyntaxError, warnings := [PayloadUnreadable] \<rparr>))"
proof -
  have "trim s \<noteq> [] \<Longrightarrow> s \<noteq> []" by (auto simp: trim_def)
  moreover have "length (trim s) > MAX_EXTRACTED_JSON_CHARS \<Longrightarrow> trim s \<noteq> []" by auto
  ultimately show ?thesis
    by (auto simp: processClaudePayload_def Let_def)
qed

theorem payload_size_and_parse_failure_witness:
  "length (trim (replicate 12001 CHR ''x'')) > MAX_EXTRACTED_JSON_CHARS
   \<and> processClaudePayload (\<lambda>text. None) (JStr (replicate 12001 CHR ''x''))
       = Inr (emptyResult \<lparr> warnings := [PayloadTooLarge] \<rparr>)
   \<and> trim ''{bad json'' \<noteq> [] \<and> length (trim ''{bad json'') \<le> MAX_EXTRACTED_JSON_CHARS
   \<and> processClaudePayload (\<lambda>text. None) (JStr ''{bad json'')
       = Inr (emptyResult \<lparr> parseError := Some SyntaxError, warnings := [PayloadUnreadable] \<rparr>)"
proof -
  have nw: "\<not> isWhiteSpace CHR ''x''" by (simp add: isWhiteSpace_def)
  have a: "length (trim (replicate 12001 CHR ''x'')) > MAX_EXTRACTED_JSON_CHARS"
    by (simp add: trim_replicate[OF nw] MAX_EXTRACTED_JSON_CHARS_def)
  have t: "trim ''{bad json'' = ''{bad json''" by (simp add: trim_def isWhiteSpace_def)
  have b: "trim ''{bad json'' \<noteq> [] \<and> length (trim ''{bad json'') \<le> MAX_EXTRACTED_JSON_CHARS"
    by (simp add: t MAX_EXTRACTED_JSON_CHARS_def)
  show ?thesis
    using a b payload_size_and_parse_failure[of "replicate 12001 CHR ''x''" "\<lambda>text. None"]
      payload_size_and_parse_failure[of "''{bad json''" "\<lambda>text. None"]
    by simp
qed

subsection \<open>Vendors\<close>

lemma buildVendor_no_dup:
  "buildVendor v n t = Inr (r, w) \<Longrightarrow> filter isVendorDuplicate w = []"
  by (auto simp: buildVendor_def Let_def isVendorDuplicate_def split: sum.splits if_splits)

lemma vendorStep_cases:
  assumes "vendorStep (san, ws, seen) (i, v) = Inr (san', ws', seen')"
  shows "(vendorIdentity v = None \<and> san' = san \<and> seen' = seen
            \<and> (\<exists>w. ws' = ws @ [w] \<and> \<not> isVendorDuplicate w))
       \<or> (vendorIdentity v \<noteq> None \<and> vendorStringKey v \<in> seen \<and> san' = san \<and> seen' = seen
            \<and> ws' = ws @ [vendorDuplicateWarning v])
       \<or> (\<exists>t n r w. vendorIdentity v = Some (t, n) \<and> vendorStringKey v \<notin> seen
            \<and> buildVendor v n t = Inr (r, w) \<and> san' = san @ [r] \<and> ws' = ws @ w
            \<and> seen' = insert (vendorStringKey v) seen)"
  using assms
  by (auto simp: vendorStep_def vendorIdentity_def vendorStringKey_def vendorDuplicateWarning_def
        isVendorDuplicate_def Let_def
      split: sum.splits option.splits if_splits prod.splits)

lemma vendors_loop:
  "foldE vendorStep ivs (san, ws, seen) = Inr (san', ws', seen') \<Longrightarrow>
     (\<exists>new. san' = san @ new
        \<and> list_all2 (vendorBuilt ws') (firstOcc vendorStringKey seen (identifiedVendors (map snd ivs))) new)
     \<and> filter isVendorDuplicate ws'
         = filter isVendorDuplicate ws
           @ map vendorDuplicateWarning (laterOcc vendorStringKey seen (identifiedVendors (map snd ivs)))
     \<and> set ws \<subseteq> set ws'"
proof (induction ivs arbitrary: san ws seen)
  case Nil
  then show ?case by (simp add: identifiedVendors_def)
next
  case (Cons iv ivs)
  obtain i v where iv: "iv = (i, v)" by (cases iv)
  from Cons.prems iv obtain san1 ws1 seen1 where
    step: "vendorStep (san, ws, seen) (i, v) = Inr (san1, ws1, seen1)"
    and rest: "foldE vendorStep ivs (san1, ws1, seen1) = Inr (san', ws', seen')"
    by (auto split: sum.splits)
  note IH = Cons.IH[OF rest]
  from IH obtain new where new: "san' = san1 @ new"
    "list_all2 (vendorBuilt ws') (firstOcc vendorStringKey seen1 (identifiedVendors (map snd ivs))) new"
    by blast
  from IH have dups: "filter isVendorDuplicate ws'
         = filter isVendorDuplicate ws1
           @ map vendorDuplicateWarning (laterOcc vendorStringKey seen1 (identifiedVendors (map snd ivs)))"
    and mono: "set ws1 \<subseteq> set ws'" by simp_all
  from vendorStep_cases[OF step] show ?case
  proof (elim disjE conjE exE)
    fix w
    assume a: "vendorIdentity v = None" "san1 = san" "seen1 = seen" "ws1 = ws @ [w]" "\<not> isVendorDuplicate w"
    with new dups mono iv show ?thesis by (auto simp: identifiedVendors_def)
  next
    assume a: "vendorIdentity v \<noteq> None" "vendorStringKey v \<in> seen" "san1 = san" "seen1 = seen"
      "ws1 = ws @ [vendorDuplicateWarning v]"
    then have "isVendorDuplicate (vendorDuplicateWarning v)"
      by (auto simp: vendorDuplicateWarning_def isVendorDuplicate_def)
    with a new dups mono iv show ?thesis by (auto simp: identifiedVendors_def)
  next
    fix t n r w
    assume a: "vendorIdentity v = Some (t, n)" "vendorStringKey v \<notin> seen"
      "buildVendor v n t = Inr (r, w)" "san1 = san @ [r]" "ws1 = ws @ w"
      "seen1 = insert (vendorStringKey v) seen"
    from a mono have "vendorBuilt ws' v r" by (auto simp: vendorBuilt_def)
    with a new dups mono iv buildVendor_no_dup[OF a(3)] show ?thesis
      by (auto simp: identifiedVendors_def)
  qed
qed

lemma split_at_colon:
  "CHR '':'' \<notin> set t \<Longrightarrow> takeWhile (\<lambda>c. c \<noteq> CHR '':'') (t @ '':'' @ l) = t
     \<and> dropWhile (\<lambda>c. c \<noteq> CHR '':'') (t @ '':'' @ l) = '':'' @ l"
  by (induction t) auto

lemma vendorKey_inj:
  assumes "CHR '':'' \<notin> set t" "CHR '':'' \<notin> set t'" "vendorKey t n = vendorKey t' n'"
  shows "t = t' \<and> toLowerCase n = toLowerCase n'"
proof -
  from assms(3) have eq: "t @ '':'' @ toLowerCase n = t' @ '':'' @ toLowerCase n'"
    by (simp add: vendorKey_def)
  have "t = t'"
    using split_at_colon[OF assms(1), of "toLowerCase n"] split_at_colon[OF assms(2), of "toLowerCase n'"] eq
    by metis
  with eq show ?thesis by simp
qed

lemma canonical_type_no_colon:
  "canonicalizeVendorType v = Inr (Some t) \<Longrightarrow> CHR '':'' \<notin> set t"
  by (auto simp: canonicalizeVendorType_def Let_def VENDOR_TYPES_def VENDOR_TYPE_ALIASES_def
      split: if_splits jsval.splits)

lemma vendorIdentity_no_colon: "vendorIdentity v = Some (t, n) \<Longrightarrow> CHR '':'' \<notin> set t"
  by (auto simp: vendorIdentity_def canonical_type_no_colon split: if_splits sum.splits option.splits)

lemma vendor_keys_agree:
  assumes "vendorIdentity x \<noteq> None" "vendorIdentity y \<noteq> None"
  shows "(vendorStringKey x = vendorStringKey y) = (vendorItemKey x = vendorItemKey y)"
proof -
  from assms obtain t n t' n' where x: "vendorIdentity x = Some (t, n)" and y: "vendorIdentity y = Some (t', n')"
    by auto
  show ?thesis
    using vendorKey_inj[OF vendorIdentity_no_colon[OF x] vendorIdentity_no_colon[OF y], of n n'] x y
    by (auto simp: vendorStringKey_def vendorItemKey_def vendorKey_def)
qed

lemma vendor_occurrences:
  "firstOcc vendorStringKey {} (identifiedVendors items) = acceptedVendors items
   \<and> laterOcc vendorStringKey {} (identifiedVendors items) = duplicateVendors items"
  using firstOcc_key_change[of "{v. vendorIdentity v \<noteq> None}" vendorStringKey vendorItemKey
      "identifiedVendors items" "{}"]
  by (auto simp: vendor_keys_agree acceptedVendors_def duplicateVendors_def identifiedVendors_def)

lemma sanitizeVendors_char:
  assumes "sanitizeVendors (JArr items) = Inr (out, ws)"
  shows "list_all2 (vendorBuilt ws) (acceptedVendors items) out
       \<and> filter isVendorDuplicate ws = map vendorDuplicateWarning (duplicateVendors items)"
proof (cases "items = []")
  case True
  with assms show ?thesis
    by (simp add: sanitizeVendors_def acceptedVendors_def duplicateVendors_def identifiedVendors_def)
next
  case False
  with assms obtain seen' where
    "foldE vendorStep (indexed items) ([], [], {}) = Inr (out, ws, seen')"
    by (auto simp: sanitizeVendors_def split: sum.splits)
  from vendors_loop[OF this] show ?thesis
    by (simp add: map_snd_indexed vendor_occurrences)
qed

lemma buildVendor_fields:
  assumes "buildVendor v n t = Inr (r, w)"
  shows "vendor_type r = t" "vendor_name r = n"
    "\<And>c d. total_cost r = Some c \<Longrightarrow> deposit_amount r = Some d \<Longrightarrow> d \<le> c"
    "\<And>c d. normalizeCurrency (getProp v ''total_cost'') = Some c \<Longrightarrow>
        normalizeCurrency (getProp v ''deposit_amount'') = Some d \<Longrightarrow> c < d \<Longrightarrow>
        VendorDepositAdjusted n \<in> set w \<and> deposit_amount r = Some c"
  using assms
  by (auto simp: buildVendor_def Let_def split: sum.splits if_splits option.splits)

lemma vendorBuilt_identity:
  "vendorBuilt ws v r \<Longrightarrow> vendorIdentity v = Some (vendor_type r, vendor_name r)"
  by (auto simp: vendorBuilt_def buildVendor_fields)

lemma vendorBuilt_key:
  "vendorBuilt ws v r \<Longrightarrow> vendorItemKey v = Some (vendor_type r, toLowerCase (vendor_name r))"
  by (simp add: vendorItemKey_def vendorBuilt_identity)

lemma stringOrFalsy_canonicalize:
  "stringOrFalsy v \<Longrightarrow> \<exists>r. canonicalizeVendorType v = Inr r"
  by (cases v) (auto simp: stringOrFalsy_def canonicalizeVendorType_def Let_def)

lemma stringOrFalsy_trimLower:
  "stringOrFalsy v \<Longrightarrow> \<exists>r. trimLowerOrNull v = Inr r"
  by (cases v) (auto simp: stringOrFalsy_def trimLowerOrNull_def)

lemma buildVendor_safe:
  "stringOrFalsy (getProp v ''status'') \<Longrightarrow> \<exists>r w. buildVendor v n t = Inr (r, w)"
  using stringOrFalsy_trimLower[of "getProp v ''status''"]
  by (auto simp: buildVendor_def Let_def)

lemma vendorStep_safe:
  assumes "vendorFieldsSafe v"
  shows "\<exists>st'. vendorStep st (i, v) = Inr st'"
proof -
  obtain san ws seen where st: "st = (san, ws, seen)" by (cases st) auto
  from assms obtain ty where ty: "canonicalizeVendorType (getProp v ''vendor_type'') = Inr ty"
    using stringOrFalsy_canonicalize by (auto simp: vendorFieldsSafe_def)
  from assms have "\<And>n t. \<exists>r w. buildVendor v n t = Inr (r, w)"
    by (simp add: vendorFieldsSafe_def buildVendor_safe)
  then show ?thesis
    unfolding st vendorStep_def using ty
    by (auto simp: Let_def split: option.splits sum.splits) (metis Inl_Inr_False)+
qed

lemma vendors_loop_safe:
  "\<forall>iv \<in> set ivs. vendorFieldsSafe (snd iv) \<Longrightarrow> \<exists>st'. foldE vendorStep ivs st = Inr st'"
proof (induction ivs arbitrary: st)
  case Nil
  show ?case by (intro exI[of _ st]) simp
next
  case (Cons iv ivs)
  obtain i v where iv: "iv = (i, v)" by (cases iv)
  with Cons.prems obtain st1 where "vendorStep st (i, v) = Inr st1"
    using vendorStep_safe[of v st i] by auto
  with Cons iv show ?case by auto
qed

lemma sanitizeVendors_safe:
  assumes "\<forall>v \<in> set items. vendorFieldsSafe v"
  shows "\<exists>out ws. sanitizeVendors (JArr items) = Inr (out, ws)"
proof -
  have "\<forall>iv \<in> set (indexed items). vendorFieldsSafe (snd iv)"
    using assms by (auto simp: indexed_def dest: set_zip_rightD)
  from vendors_loop_safe[OF this, of "([], [], {})"] show ?thesis
    by (auto simp: sanitizeVendors_def split: prod.splits)
qed

lemma exampleVendors_run:
  "sanitizeVendors (JArr exampleVendors) =
     Inr ([\<lparr> vendor_type = ''photographer'', vendor_name = ''Lens'', vendor_contact_name = None,
              vendor_email = None, vendor_phone = None, total_cost = Some 100,
              deposit_amount = Some 100, deposit_paid = None, deposit_date = None,
              balance_due = None, final_payment_date = None, final_payment_paid = None,
              vendor_status = None, contract_signed = None, contract_date = None,
              service_date = None, vendor_notes = None \<rparr>,
           \<lparr> vendor_type = ''florist'', vendor_name = ''Lens'', vendor_contact_name = None,
              vendor_email = None, vendor_phone = None, total_cost = None,
              deposit_amount = None, deposit_paid = None, deposit_date = None,
              balance_due = None, final_payment_date = None, final_payment_paid = None,
              vendor_status = None, contract_signed = None, contract_date = None,
              service_date = None, vendor_notes = None \<rparr>],
          [VendorDepositAdjusted ''Lens'', VendorDuplicate ''LENS'' ''photographer''])"
  by code_simp

lemma exampleVendors_occurrences:
  "acceptedVendors exampleVendors = [exampleVendors ! 0, exampleVendors ! 2]
   \<and> duplicateVendors exampleVendors = [exampleVendors ! 1]
   \<and> vendorIdentity (exampleVendors ! 0) = Some (''photographer'', ''Lens'')
   \<and> vendorIdentity (exampleVendors ! 1) = Some (''photographer'', ''LENS'')
   \<and> vendorIdentity (exampleVendors ! 2) = Some (''florist'', ''Lens'')"
  by code_simp

text \<open>
  Claim C6: whenever \<open>sanitizeVendors\<close> returns, its output lists, in order, the
  first item of every identity key (canonical type, lowercased trimmed name) among the
  items with an identity; every item that repeats the key of an earlier one is
  dropped with its duplicate warning; and the identity key is unique across the
  output.
\<close>

theorem sanitizeVendors_dedup:
  assumes "sanitizeVendors (JArr items) = Inr (out, ws)"
  shows "map (\<lambda>r. Some (vendor_type r, vendor_name r)) out = map vendorIdentity (acceptedVendors items)
       \<and> filter isVendorDuplicate ws = map vendorDuplicateWarning (duplicateVendors items)
       \<and> distinct (map (\<lambda>r. (vendor_type r, toLowerCase (vendor_name r))) out)"
proof -
  from sanitizeVendors_char[OF assms] have
    built: "list_all2 (vendorBuilt ws) (acceptedVendors items) out"
    and dups: "filter isVendorDuplicate ws = map vendorDuplicateWarning (duplicateVendors items)"
    by simp_all
  have ids: "map vendorIdentity (acceptedVendors items) = map (\<lambda>r. Some (vendor_type r, vendor_name r)) out"
    using built by (rule list_all2_map_eq) (simp add: vendorBuilt_identity)
  have keys: "map vendorItemKey (acceptedVendors items)
                = map (\<lambda>r. Some (vendor_type r, toLowerCase (vendor_name r))) out"
    using built by (rule list_all2_map_eq) (simp add: vendorBuilt_key)
  have "distinct (map vendorItemKey (acceptedVendors items))"
    by (simp add: acceptedVendors_def firstOcc_distinct)
  with keys have "distinct (map (\<lambda>r. Some (vendor_type r, toLowerCase (vendor_name r))) out)"
    by simp
  then have "distinct (map (\<lambda>r. (vendor_type r, toLowerCase (vendor_name r))) out)"
    by (simp add: distinct_map inj_on_def)
  with ids dups show ?thesis by simp
qed

theorem sanitizeVendors_dedup_witness:
  "(\<exists>out ws. sanitizeVendors (JArr exampleVendors) = Inr (out, ws)
      \<and> map (\<lambda>r. Some (vendor_type r, vendor_name r)) out
          = [Some (''photographer'', ''Lens''), Some (''florist'', ''Lens'')]
      \<and> filter isVendorDuplicate ws = [VendorDuplicate ''LENS'' ''photographer'']
      \<and> distinct (map (\<lambda>r. (vendor_type r, toLowerCase (vendor_name r))) out))"
  using sanitizeVendors_dedup[OF exampleVendors_run] exampleVendors_run
    exampleVendors_occurrences
  by (simp add: vendorDuplicateWarning_def)

text \<open>
  Claim C8: whenever \<open>sanitizeVendors\<close> returns, no emitted vendor with both
  amounts known has a deposit above its total cost; and for every accepted item whose
  normalized deposit exceeds its normalized total cost the adjustment warning for its
  name is among the warnings.
\<close>

theorem sanitizeVendors_deposit_clamped:
  assumes "sanitizeVendors (JArr items) = Inr (out, ws)"
  shows "(\<forall>r \<in> set out. \<forall>c d. total_cost r = Some c \<longrightarrow> deposit_amount r = Some d \<longrightarrow> d \<le> c)
       \<and> (\<forall>v \<in> set (acceptedVendors items). \<forall>t n c d.
            vendorIdentity v = Some (t, n) \<longrightarrow>
            normalizeCurrency (getProp v ''total_cost'') = Some c \<longrightarrow>
            normalizeCurrency (getProp v ''deposit_amount'') = Some d \<longrightarrow> c < d \<longrightarrow>
            VendorDepositAdjusted n \<in> set ws)"
proof -
  from sanitizeVendors_char[OF assms] have
    built: "list_all2 (vendorBuilt ws) (acceptedVendors items) out" by simp
  have a: "\<forall>r \<in> set out. \<forall>c d. total_cost r = Some c \<longrightarrow> deposit_amount r = Some d \<longrightarrow> d \<le> c"
  proof
    fix r assume "r \<in> set out"
    with built obtain v where "vendorBuilt ws v r"
      by (blast dest: list_all2_right)
    then show "\<forall>c d. total_cost r = Some c \<longrightarrow> deposit_amount r = Some d \<longrightarrow> d \<le> c"
      by (auto simp: vendorBuilt_def dest: buildVendor_fields(3))
  qed
  have b: "\<forall>v \<in> set (acceptedVendors items). \<forall>t n c d.
            vendorIdentity v = Some (t, n) \<longrightarrow>
            normalizeCurrency (getProp v ''total_cost'') = Some c \<longrightarrow>
            normalizeCurrency (getProp v ''deposit_amount'') = Some d \<longrightarrow> c < d \<longrightarrow>
            VendorDepositAdjusted n \<in> set ws"
  proof
    fix v assume "v \<in> set (acceptedVendors items)"
    with built obtain r where "vendorBuilt ws v r"
      by (blast dest: list_all2_left)
    then show "\<forall>t n c d.
            vendorIdentity v = Some (t, n) \<longrightarrow>
            normalizeCurrency (getProp v ''total_cost'') = Some c \<longrightarrow>
            normalizeCurrency (getProp v ''deposit_amount'') = Some d \<longrightarrow> c < d \<longrightarrow>
            VendorDepositAdjusted n \<in> set ws"
      using buildVendor_fields(4) by (fastforce simp: vendorBuilt_def)
  qed
  from a b show ?thesis by simp
qed

theorem sanitizeVendors_deposit_clamped_witness:
  "(\<exists>out ws. sanitizeVendors (JArr exampleVendors) = Inr (out, ws)
      \<and> exampleVendors ! 0 \<in> set (acceptedVendors exampleVendors)
      \<and> normalizeCurrency (getProp (exampleVendors ! 0) ''total_cost'') = Some 100
      \<and> normalizeCurrency (getProp (exampleVendors ! 0) ''deposit_amount'') = Some 150
      \<and> VendorDepositAdjusted ''Lens'' \<in> set ws
      \<and> total_cost (out ! 0) = Some 100 \<and> deposit_amount (out ! 0) = Some 100)"
proof -
  have amounts:
    "normalizeCurrency (getProp (exampleVendors ! 0) ''total_cost'') = Some 100
     \<and> normalizeCurrency (getProp (exampleVendors ! 0) ''deposit_amount'') = Some 150"
    by code_simp
  have acc: "exampleVendors ! 0 \<in> set (acceptedVendors exampleVendors)"
    using exampleVendors_occurrences by simp
  show ?thesis
    using sanitizeVendors_deposit_clamped[OF exampleVendors_run] exampleVendors_run
      exampleVendors_occurrences amounts acc
    by auto
qed

text \<open>
  Claim C10: an item whose type resolves, whose name is not blank and whose identity
  key no earlier item has is emitted whenever \<open>sanitizeVendors\<close> returns, whatever
  its other fields are; there is no rejection for want of other data. And the
  function does return when no item has a type or status that is neither a string nor
  falsy, so in particular when all other fields are null.
\<close>

theorem sanitizeVendors_identity_suffices:
  assumes "i < length items" and "vendorIdentity (items ! i) = Some (t, n)"
    and "\<forall>j<i. vendorItemKey (items ! j) \<noteq> vendorItemKey (items ! i)"
  shows "(sanitizeVendors (JArr items) = Inr (out, ws) \<longrightarrow>
            (\<exists>r \<in> set out. vendor_type r = t \<and> vendor_name r = n))
       \<and> ((\<forall>v \<in> set items. vendorFieldsSafe v) \<longrightarrow>
            (\<exists>out' ws'. sanitizeVendors (JArr items) = Inr (out', ws')))"
proof -
  have acc: "items ! i \<in> set (acceptedVendors items)"
    unfolding acceptedVendors_def identifiedVendors_def
    using assms by (intro firstOcc_filter_nth) auto
  have "\<exists>r \<in> set out. vendor_type r = t \<and> vendor_name r = n"
    if h: "sanitizeVendors (JArr items) = Inr (out, ws)"
  proof -
    from sanitizeVendors_char[OF h] have "list_all2 (vendorBuilt ws) (acceptedVendors items) out"
      by simp
    with acc obtain r where "r \<in> set out" "vendorBuilt ws (items ! i) r"
      by (blast dest: list_all2_left)
    with assms(2) show ?thesis
      using vendorBuilt_identity[of ws "items ! i" r] by auto
  qed
  then show ?thesis using sanitizeVendors_safe by blast
qed

theorem sanitizeVendors_identity_suffices_witness:
  "2 < length exampleVendors
   \<and> vendorIdentity (exampleVendors ! 2) = Some (''florist'', ''Lens'')
   \<and> vendorItemKey (exampleVendors ! 0) \<noteq> vendorItemKey (exampleVendors ! 2)
   \<and> vendorItemKey (exampleVendors ! 1) \<noteq> vendorItemKey (exampleVendors ! 2)
   \<and> list_all vendorFieldsSafe exampleVendors
   \<and> (\<exists>out ws. sanitizeVendors (JArr exampleVendors) = Inr (out, ws)
        \<and> (\<exists>r \<in> set out. vendor_type r = ''florist'' \<and> vendor_name r = ''Lens''
              \<and> total_cost r = None \<and> vendor_status r = None \<and> vendor_notes r = None))"
proof -
  have len: "2 < length exampleVendors" by code_simp
  have ident: "vendorIdentity (exampleVendors ! 2) = Some (''florist'', ''Lens'')"
    using exampleVendors_occurrences by simp
  have keys: "vendorItemKey (exampleVendors ! 0) \<noteq> vendorItemKey (exampleVendors ! 2)
     \<and> vendorItemKey (exampleVendors ! 1) \<noteq> vendorItemKey (exampleVendors ! 2)"
    by code_simp
  then have earlier: "\<forall>j<2. vendorItemKey (exampleVendors ! j) \<noteq> vendorItemKey (exampleVendors ! 2)"
    by (auto simp: less_Suc_eq numeral_2_eq_2)
  have safe: "list_all vendorFieldsSafe exampleVendors" by code_simp
  show ?thesis
    using sanitizeVendors_identity_suffices[OF len ident earlier] exampleVendors_run
      len ident keys safe
    by auto
qed

subsection \<open>Tasks\<close>














subsection \<open>Budget items\<close>




















subsection \<open>Profile fields\<close>

lemma update_fresh: "k \<notin> fst ` set al \<Longrightarrow> AList.update k v al = al @ [(k, v)]"
  by (induction al) auto

lemma text_keys_not_typed:
  "key \<in> set TEXT_KEYS \<Longrightarrow> key \<notin> set TYPED_KEYS"
  by (auto simp: TEXT_KEYS_def TYPED_KEYS_def)

lemma weddingInfoEntry_step:
  assumes "weddingInfoEntry (san, ws) (k, v) = Inr (san1, ws1)"
  shows "san1 = (case acceptedField (k, v) of Some (k', x) \<Rightarrow> AList.update k' x san | None \<Rightarrow> san)
       \<and> ws1 = ws @ (case fieldWarning (k, v) of Some w \<Rightarrow> [w] | None \<Rightarrow> [])"
proof (cases "skippedValue v")
  case True
  with assms show ?thesis
    by (auto simp: weddingInfoEntry_def acceptedField_def fieldWarning_def skippedValue_def)
next
  case False
  then have ns: "v \<noteq> JNull" "v \<noteq> JUndefined" "v \<noteq> JStr []"
    by (auto simp: skippedValue_def)
  consider (date) "k = ''wedding_date''" | (time) "k = ''wedding_time''"
    | (count) "k = ''expected_guest_count''" | (budget) "k = ''total_budget''"
    | (cost) "k = ''venue_cost''"
    | (textKey) "k \<notin> set TYPED_KEYS" "k \<in> set TEXT_KEYS"
    | (other) "k \<notin> set TYPED_KEYS" "k \<notin> set TEXT_KEYS"
    by (auto simp: TYPED_KEYS_def)
  then show ?thesis
  proof cases
    case date
    with assms False ns show ?thesis
      by (auto simp: weddingInfoEntry_def acceptedField_def fieldWarning_def validateField_def
            ignoreField_def TYPED_KEYS_def Let_def split: option.splits if_splits)
  next
    case time
    with assms False ns show ?thesis
      by (auto simp: weddingInfoEntry_def acceptedField_def fieldWarning_def validateField_def
            ignoreField_def TYPED_KEYS_def Let_def split: option.splits if_splits)
  next
    case count
    with assms False ns show ?thesis
      by (auto simp: weddingInfoEntry_def acceptedField_def fieldWarning_def validateField_def
            ignoreField_def TYPED_KEYS_def Let_def split: option.splits if_splits)
  next
    case budget
    with assms False ns show ?thesis
      by (auto simp: weddingInfoEntry_def acceptedField_def fieldWarning_def validateField_def
            ignoreField_def TYPED_KEYS_def Let_def split: option.splits if_splits)
  next
    case cost
    with assms False ns show ?thesis
      by (auto simp: weddingInfoEntry_def acceptedField_def fieldWarning_def validateField_def
            ignoreField_def TYPED_KEYS_def Let_def split: option.splits if_splits)
  next
    case textKey
    from textKey(1) have nk: "k \<noteq> ''wedding_date''" "k \<noteq> ''wedding_time''"
      "k \<noteq> ''expected_guest_count''" "k \<noteq> ''total_budget''" "k \<noteq> ''venue_cost''"
      by (auto simp: TYPED_KEYS_def)
    with assms False ns textKey show ?thesis
      by (auto simp: weddingInfoEntry_def acceptedField_def fieldWarning_def validateField_def
            Let_def split: option.splits)
  next
    case other
    from other(1) have nk: "k \<noteq> ''wedding_date''" "k \<noteq> ''wedding_time''"
      "k \<noteq> ''expected_guest_count''" "k \<noteq> ''total_budget''" "k \<noteq> ''venue_cost''"
      by (auto simp: TYPED_KEYS_def)
    with assms False ns other show ?thesis
      by (auto simp: weddingInfoEntry_def acceptedField_def fieldWarning_def validateField_def
            Let_def)
  qed
qed

lemma acceptedField_key: "acceptedField (k, v) = Some (k', x) \<Longrightarrow> k' = k"
  by (auto simp: acceptedField_def split: if_splits)

lemma weddingInfo_loop:
  "foldE weddingInfoEntry kvs (san, ws) = Inr (out, ws') \<Longrightarrow> distinct (map fst kvs) \<Longrightarrow>
     fst ` set san \<inter> fst ` set kvs = {} \<Longrightarrow>
     out = san @ List.map_filter acceptedField kvs \<and> ws' = ws @ List.map_filter fieldWarning kvs"
proof (induction kvs arbitrary: san ws)
  case Nil
  then show ?case by (simp add: List.map_filter_def)
next
  case (Cons kv kvs)
  obtain k v where kv: "kv = (k, v)" by (cases kv)
  from Cons.prems(1) kv obtain san1 ws1 where
    step: "weddingInfoEntry (san, ws) (k, v) = Inr (san1, ws1)"
    and rest: "foldE weddingInfoEntry kvs (san1, ws1) = Inr (out, ws')"
    by (auto split: sum.splits)
  from Cons.prems(3) kv have fresh: "k \<notin> fst ` set san" by auto
  from weddingInfoEntry_step[OF step] have
    s1: "san1 = (case acceptedField (k, v) of Some (k', x) \<Rightarrow> AList.update k' x san | None \<Rightarrow> san)"
    and w1: "ws1 = ws @ (case fieldWarning (k, v) of Some w \<Rightarrow> [w] | None \<Rightarrow> [])"
    by simp_all
  have san1: "san1 = san @ (case acceptedField (k, v) of Some p \<Rightarrow> [p] | None \<Rightarrow> [])"
  proof (cases "acceptedField (k, v)")
    case None
    with s1 show ?thesis by simp
  next
    case (Some p)
    obtain k' x where p: "p = (k', x)" by (cases p)
    with Some have "k' = k" by (simp add: acceptedField_key)
    with s1 Some p fresh show ?thesis by (simp add: update_fresh)
  qed
  have keys1: "fst ` set san1 \<subseteq> insert k (fst ` set san)"
    using san1 by (auto split: option.splits dest: acceptedField_key)
  from Cons.prems(2) kv have d: "distinct (map fst kvs)" and knew: "k \<notin> fst ` set kvs" by auto
  from Cons.prems(3) kv have "fst ` set san \<inter> fst ` set kvs = {}" by auto
  with knew keys1 have disj: "fst ` set san1 \<inter> fst ` set kvs = {}" by blast
  from Cons.IH[OF rest d disj] san1 w1 kv show ?case
    by (auto simp: List.map_filter_def split: option.splits)
qed

lemma in_map_filter:
  "y \<in> set (List.map_filter f xs) \<longleftrightarrow> (\<exists>x \<in> set xs. f x = Some y)"
  by (induction xs) (auto simp: List.map_filter_def)

lemma validateField_recognized:
  "validateField k v = Some x \<Longrightarrow> k \<in> set TYPED_KEYS \<union> set TEXT_KEYS"
  by (auto simp: validateField_def TYPED_KEYS_def split: if_splits)

lemma exampleProfile_run:
  "sanitizeWeddingInfo (JObj exampleProfile) =
     Inr ([(''wedding_time'', TextField ''17:30''), (''partner2_name'', TextField ''Al''),
           (''total_budget'', NumberField 950)],
          [IgnoredField ''wedding_date'' (JStr ''next spring''),
           IgnoredField ''expected_guest_count'' (JBool True)])"
  by code_simp

lemma exampleProfile_distinct: "distinct (map fst exampleProfile)"
  by (simp add: exampleProfile_def)

text \<open>
  Claim C4 fails as stated for the nine free-text keys: a number under
  \<^verbatim>\<open>partner1_name\<close> is present, is not null or the empty string, and fails the
  validator; the key is omitted, and no warning is recorded.
\<close>

theorem sanitizeWeddingInfo_text_key_counterexample:
  "''partner1_name'' \<in> set TEXT_KEYS \<and> toTrimmedString (JNum 5) = None
   \<and> sanitizeWeddingInfo (JObj [(''partner1_name'', JNum 5)]) = Inr ([], [])"
  by code_simp

text \<open>
  Claim C4, amended: whenever \<open>sanitizeWeddingInfo\<close> returns on an object, its
  output holds, in input order, exactly the recognized keys whose raw value is not
  null, undefined or the empty string and passes the key's validator, each with the
  validated value; its warnings are, in input order, exactly one warning naming the
  key and the raw value for every entry under one of the five keys with a format
  (date, time, guest count, total budget, venue cost) whose raw value is not skipped
  and fails the validator; so the nine free-text keys, the skipped values and the
  keys that are not recognized leave no warning, and only recognized keys appear in
  the output.
\<close>

theorem sanitizeWeddingInfo_fields:
  assumes "sanitizeWeddingInfo (JObj kvs) = Inr (out, ws)" and "distinct (map fst kvs)"
  shows "out = List.map_filter acceptedField kvs
       \<and> ws = List.map_filter fieldWarning kvs
       \<and> fst ` set out \<subseteq> set TYPED_KEYS \<union> set TEXT_KEYS"
proof -
  from assms(1) have "foldE weddingInfoEntry kvs ([], []) = Inr (out, ws)"
    by (simp add: sanitizeWeddingInfo_def)
  from weddingInfo_loop[OF this assms(2)] have
    o: "out = List.map_filter acceptedField kvs" and w: "ws = List.map_filter fieldWarning kvs"
    by simp_all
  have "fst ` set (List.map_filter acceptedField kvs) \<subseteq> set TYPED_KEYS \<union> set TEXT_KEYS"
  proof
    fix k assume "k \<in> fst ` set (List.map_filter acceptedField kvs)"
    then obtain x kv where "kv \<in> set kvs" "acceptedField kv = Some (k, x)"
      by (auto simp: in_map_filter)
    then have "validateField k (snd kv) = Some x"
      by (cases kv) (auto simp: acceptedField_def split: if_splits)
    then show "k \<in> set TYPED_KEYS \<union> set TEXT_KEYS" by (rule validateField_recognized)
  qed
  with o w show ?thesis by simp
qed

theorem sanitizeWeddingInfo_fields_witness:
  "distinct (map fst exampleProfile)
   \<and> sanitizeWeddingInfo (JObj exampleProfile) =
       Inr ([(''wedding_time'', TextField ''17:30''), (''partner2_name'', TextField ''Al''),
             (''total_budget'', NumberField 950)],
            [IgnoredField ''wedding_date'' (JStr ''next spring''),
             IgnoredField ''expected_guest_count'' (JBool True)])
   \<and> List.map_filter acceptedField exampleProfile =
        [(''wedding_time'', TextField ''17:30''), (''partner2_name'', TextField ''Al''),
         (''total_budget'', NumberField 950)]
   \<and> List.map_filter fieldWarning exampleProfile =
        [IgnoredField ''wedding_date'' (JStr ''next spring''),
         IgnoredField ''expected_guest_count'' (JBool True)]"
proof -
  note r = sanitizeWeddingInfo_fields[OF exampleProfile_run exampleProfile_distinct]
  show ?thesis
    using exampleProfile_distinct exampleProfile_run r[THEN conjunct1, symmetric]
      r[THEN conjunct2, THEN conjunct1, symmetric]
    by (intro conjI)
qed

end
